theory Spec2Isabelle
  imports Main
begin

chapter \<open>The program\<close>

section \<open>The host: ECMAScript time values and the local calendar\<close>

text \<open>
  The budget code (\<^verbatim>\<open>utils.ts\<close>, \<^verbatim>\<open>storage.ts\<close>) works on JavaScript \<^verbatim>\<open>Date\<close> objects
  through \<^verbatim>\<open>getDay\<close>, \<^verbatim>\<open>getDate\<close>, \<^verbatim>\<open>getMonth\<close>, \<^verbatim>\<open>setDate\<close>, \<^verbatim>\<open>setHours\<close>, \<^verbatim>\<open>getTime\<close>,
  \<^verbatim>\<open>toDateString\<close> and \<^verbatim>\<open>toLocaleDateString\<close>. These are not code of the repository;
  they are modelled after ECMA-262, section "Date Objects": a \<^verbatim>\<open>Date\<close> holds a time
  value, the number of milliseconds since 1970-01-01T00:00:00Z, and the calendar
  functions below are the specification's abstract operations under their own names.

  Modelling decisions:
  \<^item> a time value is an \<open>int\<close>; the invalid date (NaN) and the range limit of
    \<open>8.64e15\<close> ms are left out;
  \<^item> the local time zone is a parameter \<open>z\<close> of every function that reads local time.
    A \<open>zone\<close> gives the offset of local time from UTC in milliseconds, once for an
    instant (\<open>utc_offset\<close>, the specification's LocalTZA(t, true)) and once for a local
    time (\<open>local_offset\<close>, LocalTZA(t, false)), so that a zone with clock changes
    (daylight saving time) is a zone like any other;
  \<^item> a \<^verbatim>\<open>Date\<close> object is mutable, but the code only ever mutates fresh copies
    (\<^verbatim>\<open>new Date(date)\<close>), so the mutators return the new time value.
\<close>

type_synonym Date = int

definition msPerDay :: int where
  "msPerDay = 86400000"

definition Day :: "int \<Rightarrow> int" where
  "Day t = t div msPerDay"

definition TimeWithinDay :: "int \<Rightarrow> int" where
  "TimeWithinDay t = t mod msPerDay"

definition DaysInYear :: "int \<Rightarrow> int" where
  "DaysInYear y =
     (if y mod 4 \<noteq> 0 then 365
      else if y mod 100 \<noteq> 0 then 366
      else if y mod 400 \<noteq> 0 then 365
      else 366)"

definition DayFromYear :: "int \<Rightarrow> int" where
  "DayFromYear y =
     365 * (y - 1970) + (y - 1969) div 4 - (y - 1901) div 100 + (y - 1601) div 400"

text \<open>
  ECMA-262 defines the year of a time value as the largest \<open>y\<close> whose first day is not
  after it. \<open>YearFromDay_search\<close> finds it from a first guess, one year at a time.
\<close>

function YearFromDay_search :: "int \<Rightarrow> int \<Rightarrow> int" where
  "YearFromDay_search y day =
     (if day < DayFromYear y then YearFromDay_search (y - 1) day
      else if DayFromYear (y + 1) \<le> day then YearFromDay_search (y + 1) day
      else y)"
  by pat_completeness auto

definition YearFromTime :: "int \<Rightarrow> int" where
  "YearFromTime t = YearFromDay_search (1970 + Day t div 366) (Day t)"

definition InLeapYear :: "int \<Rightarrow> int" where
  "InLeapYear t = (if DaysInYear (YearFromTime t) = 365 then 0 else 1)"

definition DayWithinYear :: "int \<Rightarrow> int" where
  "DayWithinYear t = Day t - DayFromYear (YearFromTime t)"

definition MonthFromTime :: "int \<Rightarrow> int" where
  "MonthFromTime t =
     (let d = DayWithinYear t; l = InLeapYear t in
      if d < 31 then 0
      else if d < 59 + l then 1
      else if d < 90 + l then 2
      else if d < 120 + l then 3
      else if d < 151 + l then 4
      else if d < 181 + l then 5
      else if d < 212 + l then 6
      else if d < 243 + l then 7
      else if d < 273 + l then 8
      else if d < 304 + l then 9
      else if d < 334 + l then 10
      else 11)"

definition DateFromTime :: "int \<Rightarrow> int" where
  "DateFromTime t =
     (let d = DayWithinYear t; l = InLeapYear t; m = MonthFromTime t in
      if m = 0 then d + 1
      else if m = 1 then d - 30
      else if m = 2 then d - 58 - l
      else if m = 3 then d - 89 - l
      else if m = 4 then d - 119 - l
      else if m = 5 then d - 150 - l
      else if m = 6 then d - 180 - l
      else if m = 7 then d - 211 - l
      else if m = 8 then d - 242 - l
      else if m = 9 then d - 272 - l
      else if m = 10 then d - 303 - l
      else d - 333 - l)"

definition WeekDay :: "int \<Rightarrow> int" where
  "WeekDay t = (Day t + 4) mod 7"

definition MakeTime :: "int \<Rightarrow> int \<Rightarrow> int \<Rightarrow> int \<Rightarrow> int" where
  "MakeTime hour minute sec ms = hour * 3600000 + minute * 60000 + sec * 1000 + ms"

definition DayFromMonth :: "int \<Rightarrow> int \<Rightarrow> int" where
  "DayFromMonth m l =
     (if m = 0 then 0
      else if m = 1 then 31
      else if m = 2 then 59 + l
      else if m = 3 then 90 + l
      else if m = 4 then 120 + l
      else if m = 5 then 151 + l
      else if m = 6 then 181 + l
      else if m = 7 then 212 + l
      else if m = 8 then 243 + l
      else if m = 9 then 273 + l
      else if m = 10 then 304 + l
      else 334 + l)"

definition MakeDay :: "int \<Rightarrow> int \<Rightarrow> int \<Rightarrow> int" where
  "MakeDay year month date =
     (let ym = year + month div 12;
          mn = month mod 12;
          l = (if DaysInYear ym = 365 then 0 else 1)
      in DayFromYear ym + DayFromMonth mn l + date - 1)"

definition MakeDate :: "int \<Rightarrow> int \<Rightarrow> int" where
  "MakeDate day time = day * msPerDay + time"

subsection \<open>Time zones\<close>

record zone =
  utc_offset :: "int \<Rightarrow> int"
  local_offset :: "int \<Rightarrow> int"

definition LocalTime :: "zone \<Rightarrow> int \<Rightarrow> int" where
  "LocalTime z t = t + utc_offset z t"

definition UTC :: "zone \<Rightarrow> int \<Rightarrow> int" where
  "UTC z t = t - local_offset z t"

text \<open>A zone without clock changes, \<open>c\<close> milliseconds ahead of UTC.\<close>

definition fixed_zone :: "int \<Rightarrow> zone" where
  "fixed_zone c = \<lparr>utc_offset = (\<lambda>t. c), local_offset = (\<lambda>t. c)\<rparr>"

text \<open>
  The zones in which the calendar arithmetic of the code lands where it aims: a local
  time, turned into an instant and read back, is still on the same local day, and a
  local midnight is read back as itself. Every fixed offset is such a zone, and so is
  a zone whose clocks change in the small hours of a day, as in Europe and North
  America; a zone whose clock change skips a midnight is not.
\<close>

definition calendar_zone :: "zone \<Rightarrow> bool" where
  "calendar_zone z \<longleftrightarrow>
     (\<forall>x. Day (LocalTime z (UTC z x)) = Day x)
     \<and> (\<forall>k. LocalTime z (UTC z (k * msPerDay)) = k * msPerDay)"

subsection \<open>The methods of \<^verbatim>\<open>Date\<close> that the code calls\<close>

definition getTime :: "Date \<Rightarrow> int" where
  "getTime d = d"

definition getDay :: "zone \<Rightarrow> Date \<Rightarrow> int" where
  "getDay z d = WeekDay (LocalTime z d)"

definition getDate :: "zone \<Rightarrow> Date \<Rightarrow> int" where
  "getDate z d = DateFromTime (LocalTime z d)"


definition setDate :: "zone \<Rightarrow> Date \<Rightarrow> int \<Rightarrow> Date" where
  "setDate z d dt =
     (let t = LocalTime z d
      in UTC z (MakeDate (MakeDay (YearFromTime t) (MonthFromTime t) dt) (TimeWithinDay t)))"

definition setHours :: "zone \<Rightarrow> Date \<Rightarrow> int \<Rightarrow> int \<Rightarrow> int \<Rightarrow> int \<Rightarrow> Date" where
  "setHours z d hour minute sec ms =
     (let t = LocalTime z d
      in UTC z (MakeDate (Day t) (MakeTime hour minute sec ms)))"

subsection \<open>Strings of numbers and dates\<close>

text \<open>
  \<^verbatim>\<open>toString\<close> is \<^verbatim>\<open>Number.prototype.toString\<close> on an integer: its decimal digits, after a
  minus sign when negative. \<^verbatim>\<open>toDateString\<close> follows ECMA-262's DateString (weekday
  name, month name, day on two digits, year on at least four). The short month of
  \<^verbatim>\<open>toLocaleDateString('en-US', {month: 'short'})\<close> is the locale's three-letter
  abbreviation, the same table as the month name of DateString.
\<close>

definition digit_char :: "int \<Rightarrow> char" where
  "digit_char n = char_of (48 + n)"

function digits :: "int \<Rightarrow> string" where
  "digits n = (if n < 10 then [digit_char n] else digits (n div 10) @ [digit_char (n mod 10)])"
  by pat_completeness auto

definition toString :: "int \<Rightarrow> string" where
  "toString n = (if n < 0 then CHR ''-'' # digits (- n) else digits n)"

definition ToZeroPaddedDecimalString :: "int \<Rightarrow> nat \<Rightarrow> string" where
  "ToZeroPaddedDecimalString n minLength =
     (let s = toString n in replicate (minLength - length s) CHR ''0'' @ s)"

definition weekdayName :: "int \<Rightarrow> string" where
  "weekdayName w =
     (if w = 0 then ''Sun'' else if w = 1 then ''Mon'' else if w = 2 then ''Tue''
      else if w = 3 then ''Wed'' else if w = 4 then ''Thu'' else if w = 5 then ''Fri''
      else ''Sat'')"

definition monthName :: "int \<Rightarrow> string" where
  "monthName m =
     (if m = 0 then ''Jan'' else if m = 1 then ''Feb'' else if m = 2 then ''Mar''
      else if m = 3 then ''Apr'' else if m = 4 then ''May'' else if m = 5 then ''Jun''
      else if m = 6 then ''Jul'' else if m = 7 then ''Aug'' else if m = 8 then ''Sep''
      else if m = 9 then ''Oct'' else if m = 10 then ''Nov'' else ''Dec'')"

definition DateString :: "int \<Rightarrow> string" where
  "DateString tv =
     (let weekday = weekdayName (WeekDay tv);
          month = monthName (MonthFromTime tv);
          day = ToZeroPaddedDecimalString (DateFromTime tv) 2;
          yv = YearFromTime tv;
          yearSign = (if 0 \<le> yv then [] else ''-'');
          paddedYear = ToZeroPaddedDecimalString \<bar>yv\<bar> 4
      in weekday @ '' '' @ month @ '' '' @ day @ '' '' @ yearSign @ paddedYear)"

definition toDateString :: "zone \<Rightarrow> Date \<Rightarrow> string" where
  "toDateString z d = DateString (LocalTime z d)"


section \<open>Week arithmetic and labels (\<^verbatim>\<open>utils.ts\<close>)\<close>

text \<open>
  \<^verbatim>\<open>getWeekStart\<close> copies its argument, moves the copy to the Monday of its week with
  \<^verbatim>\<open>setDate\<close> and clears the time of day with \<^verbatim>\<open>setHours(0, 0, 0, 0)\<close>.
  \<^verbatim>\<open>getWeekEnd\<close> copies that Monday, adds six days to the day of the month and sets the
  time of day to 23:59:59.999.
\<close>

definition getWeekStart :: "zone \<Rightarrow> Date \<Rightarrow> Date" where
  "getWeekStart z date =
     (let d = date;
          day = getDay z d;
          diff = getDate z d - day + (if day = 0 then - 6 else 1);
          d = setDate z d diff;
          d = setHours z d 0 0 0 0
      in d)"

definition getWeekEnd :: "zone \<Rightarrow> Date \<Rightarrow> Date" where
  "getWeekEnd z date =
     (let weekStart = getWeekStart z date;
          weekEnd = weekStart;
          weekEnd = setDate z weekEnd (getDate z weekStart + 6);
          weekEnd = setHours z weekEnd 23 59 59 999
      in weekEnd)"

definition isSameWeek :: "zone \<Rightarrow> Date \<Rightarrow> Date \<Rightarrow> bool" where
  "isSameWeek z date1 date2 =
     (let week1Start = getWeekStart z date1;
          week2Start = getWeekStart z date2
      in getTime week1Start = getTime week2Start)"

definition isSameDay :: "zone \<Rightarrow> Date \<Rightarrow> Date \<Rightarrow> bool" where
  "isSameDay z date1 date2 = (toDateString z date1 = toDateString z date2)"


section \<open>The ledger (\<^verbatim>\<open>types.ts\<close>, \<^verbatim>\<open>utils.ts\<close>, \<^verbatim>\<open>storage.ts\<close>)\<close>

text \<open>
  The three interfaces of \<^verbatim>\<open>types.ts\<close> are records. An amount is a JavaScript number;
  the records take the type of amounts as a parameter, and the functions only need its
  \<open>0\<close> and \<open>+\<close>, so what is proved about the structure of the ledger does not depend on
  how numbers are added. The field \<^verbatim>\<open>id\<close> is \<open>id'\<close> here.
\<close>

record 'a Transaction =
  id' :: string
  name :: string
  amount :: 'a
  timestamp :: Date

record 'a WeekData =
  weekStart :: Date
  transactions :: "'a Transaction list"
  dailyTotal :: 'a
  weeklyTotal :: 'a

record 'a BudgetData =
  currentWeek :: "'a WeekData"
  previousWeeks :: "'a WeekData list"

text \<open>
  The code reads the clock with \<^verbatim>\<open>new Date()\<close> and \<^verbatim>\<open>Date.now()\<close>, several times in one
  call. A \<open>clock\<close> gives the time value of every reading of a run, in order; each function
  that reads the clock takes the number \<open>k\<close> of readings made so far and returns the
  number after it. Nothing is assumed about the readings.

  \<^verbatim>\<open>saveBudgetData\<close> writes the ledger to the device store and swallows every error; it
  returns nothing and no function reads the store back, so the store is left out.
  \<^verbatim>\<open>loadBudgetData\<close> takes what it would read: \<open>Some\<close> ledger, parsed and with its dates
  rebuilt, or \<open>None\<close> when the store is empty or reading fails.
\<close>

type_synonym clock = "nat \<Rightarrow> Date"

definition new_Date :: "clock \<Rightarrow> nat \<Rightarrow> Date \<times> nat" where
  "new_Date clk k = (clk k, Suc k)"

definition Date_now :: "clock \<Rightarrow> nat \<Rightarrow> int \<times> nat" where
  "Date_now clk k = (clk k, Suc k)"

definition calculateDailyTotal ::
  "zone \<Rightarrow> ('a::{zero,plus}) Transaction list \<Rightarrow> Date \<Rightarrow> 'a" where
  "calculateDailyTotal z txs date =
     foldl (\<lambda>total transaction. total + amount transaction) 0
       (filter (\<lambda>transaction. isSameDay z (timestamp transaction) date) txs)"

definition calculateWeeklyTotal ::
  "zone \<Rightarrow> ('a::{zero,plus}) Transaction list \<Rightarrow> Date \<Rightarrow> 'a" where
  "calculateWeeklyTotal z txs ws =
     (let weekEnd = getWeekEnd z ws
      in foldl (\<lambda>total transaction. total + amount transaction) 0
           (filter (\<lambda>transaction.
              ws \<le> timestamp transaction \<and> timestamp transaction \<le> weekEnd) txs))"

definition createWeekData ::
  "zone \<Rightarrow> clock \<Rightarrow> nat \<Rightarrow> Date \<Rightarrow> ('a::{zero,plus}) Transaction list
     \<Rightarrow> 'a WeekData \<times> nat" where
  "createWeekData z clk k ws txs =
     (let (today, k1) = new_Date clk k;
          dailyTotal = calculateDailyTotal z txs today;
          weeklyTotal = calculateWeeklyTotal z txs ws
      in (\<lparr>weekStart = ws, transactions = txs,
           dailyTotal = dailyTotal, weeklyTotal = weeklyTotal\<rparr>, k1))"

definition loadBudgetData ::
  "zone \<Rightarrow> clock \<Rightarrow> nat \<Rightarrow> ('a::{zero,plus}) BudgetData option \<Rightarrow> 'a BudgetData \<times> nat" where
  "loadBudgetData z clk k stored =
     (case stored of
        Some parsed \<Rightarrow> (parsed, k)
      | None \<Rightarrow>
          (let (today, k1) = new_Date clk k;
               currentWeekStart = getWeekStart z today;
               (week, k2) = createWeekData z clk k1 currentWeekStart []
           in (\<lparr>currentWeek = week, previousWeeks = []\<rparr>, k2)))"

text \<open>
  \<open>updateWeek\<close> is the local function of \<^verbatim>\<open>removeTransaction\<close>, with the variables it
  captures as arguments. \<^verbatim>\<open>previousWeeks.map(updateWeek)\<close> is \<open>map_clock\<close>: a map from left
  to right that hands the count of clock readings from one call to the next.
\<close>

definition updateWeek ::
  "zone \<Rightarrow> clock \<Rightarrow> string \<Rightarrow> Date \<Rightarrow> nat \<Rightarrow> ('a::{zero,plus}) WeekData
     \<Rightarrow> 'a WeekData \<times> nat" where
  "updateWeek z clk transactionId targetWeekStart k week =
     (if \<not> isSameWeek z (weekStart week) targetWeekStart then (week, k)
      else let filtered = filter (\<lambda>t. id' t \<noteq> transactionId) (transactions week)
           in createWeekData z clk k (weekStart week) filtered)"

fun map_clock :: "(nat \<Rightarrow> 'a \<Rightarrow> 'b \<times> nat) \<Rightarrow> nat \<Rightarrow> 'a list \<Rightarrow> 'b list \<times> nat" where
  "map_clock f k [] = ([], k)"
| "map_clock f k (x # xs) =
     (let (y, k1) = f k x;
          (ys, k2) = map_clock f k1 xs
      in (y # ys, k2))"

definition removeTransaction ::
  "zone \<Rightarrow> clock \<Rightarrow> nat \<Rightarrow> ('a::{zero,plus}) BudgetData \<Rightarrow> string \<Rightarrow> Date
     \<Rightarrow> 'a BudgetData \<times> nat" where
  "removeTransaction z clk k currentData transactionId weekStartToEdit =
     (let targetWeekStart = getWeekStart z weekStartToEdit;
          (updatedCurrentWeek, k1) =
             updateWeek z clk transactionId targetWeekStart k (currentWeek currentData);
          (updatedPreviousWeeks, k2) =
             map_clock (updateWeek z clk transactionId targetWeekStart) k1
               (previousWeeks currentData);
          updatedData = \<lparr>currentWeek = updatedCurrentWeek,
                         previousWeeks = updatedPreviousWeeks\<rparr>
      in (updatedData, k2))"

definition addTransaction ::
  "zone \<Rightarrow> clock \<Rightarrow> nat \<Rightarrow> string \<Rightarrow> ('a::{zero,plus}) \<Rightarrow> 'a BudgetData
     \<Rightarrow> 'a BudgetData \<times> nat" where
  "addTransaction z clk k name' amount' currentData =
     (let (ms, k1) = Date_now clk k;
          (stamp, k2) = new_Date clk k1;
          newTransaction = \<lparr>id' = toString ms, name = name', amount = amount',
                             timestamp = stamp\<rparr>;
          (today, k3) = new_Date clk k2;
          currentWeekStart = getWeekStart z today
      in if isSameWeek z (weekStart (currentWeek currentData)) currentWeekStart
         then (let updatedTransactions =
                     transactions (currentWeek currentData) @ [newTransaction];
                   (updatedCurrentWeek, k4) =
                     createWeekData z clk k3 currentWeekStart updatedTransactions;
                   updatedData = currentData\<lparr>currentWeek := updatedCurrentWeek\<rparr>
               in (updatedData, k4))
         else (let updatedPreviousWeeks =
                     previousWeeks currentData @ [currentWeek currentData];
                   (newCurrentWeek, k4) =
                     createWeekData z clk k3 currentWeekStart [newTransaction];
                   updatedData = \<lparr>currentWeek = newCurrentWeek,
                                  previousWeeks = updatedPreviousWeeks\<rparr>
               in (updatedData, k4)))"

section \<open>Auxiliary definitions for the statements and proofs\<close>

text \<open>
  The number of buckets that \<^verbatim>\<open>removeTransaction\<close> rebuilds before it reaches the
  previous week \<open>i\<close>: the buckets of the target week among the current week and the
  previous weeks before \<open>i\<close>.
\<close>

definition rebuilt_before :: "zone \<Rightarrow> Date \<Rightarrow> 'a BudgetData \<Rightarrow> nat \<Rightarrow> nat" where
  "rebuilt_before z target l i =
     length (filter (\<lambda>w. isSameWeek z (weekStart w) target)
               (currentWeek l # take i (previousWeeks l)))"

text \<open>
  The local times that \<^verbatim>\<open>getWeekStart\<close> aims at, and what a zone does to a local time.
  \<open>days_since_monday t\<close> is the number of days from the Monday of the week of the
  local time \<open>t\<close> to the day of \<open>t\<close>; \<open>monday_time z d\<close> is the local time of \<open>d\<close> moved
  back to that Monday, and \<open>monday_midnight z d\<close> is 00:00 of that Monday. A local time
  stays on its day in a zone when the zone turns it into an instant and reads the
  instant back as a local time of the same day; it is read back when the zone reads
  that instant back as the same local time, which it does not for a local time that a
  clock change has skipped.
\<close>

definition days_since_monday :: "int \<Rightarrow> int" where
  "days_since_monday t = (WeekDay t + 6) mod 7"

definition monday_time :: "zone \<Rightarrow> Date \<Rightarrow> int" where
  "monday_time z d = LocalTime z d - days_since_monday (LocalTime z d) * msPerDay"

definition monday_midnight :: "zone \<Rightarrow> Date \<Rightarrow> int" where
  "monday_midnight z d = Day (monday_time z d) * msPerDay"

definition stays_on_day :: "zone \<Rightarrow> int \<Rightarrow> bool" where
  "stays_on_day z x \<longleftrightarrow> Day (LocalTime z (UTC z x)) = Day x"

definition reads_back :: "zone \<Rightarrow> int \<Rightarrow> bool" where
  "reads_back z x \<longleftrightarrow> LocalTime z (UTC z x) = x"

text \<open>
  Reading a decimal string back, to show that the strings of two numbers are equal only
  when the numbers are.
\<close>

definition digit_value :: "char \<Rightarrow> int" where
  "digit_value c = of_char c - 48"

definition dec_value :: "string \<Rightarrow> int" where
  "dec_value s = foldl (\<lambda>a c. 10 * a + digit_value c) 0 s"

section \<open>Scenarios\<close>

text \<open>
  New York around the clock change of 9 March 2025: five hours behind UTC until
  07:00 UTC of that day, four hours behind from then on. A local time before 03:00
  of that day is read with the old offset (the local times from 02:00 to 03:00 do
  not exist; ECMA-262 reads them with the offset before the change).
\<close>

definition new_york_2025 :: zone where
  "new_york_2025 =
     \<lparr>utc_offset = (\<lambda>t. if t < 1741503600000 then - 18000000 else - 14400000),
      local_offset = (\<lambda>t. if t < 1741489200000 then - 18000000 else - 14400000)\<rparr>"

text \<open>
  Tehran around the clock change of 22 March 2021: three and a half hours ahead of UTC
  until 20:30 UTC of Sunday 21 March, four and a half hours ahead from then on. The
  local clocks went from 00:00 to 01:00 of Monday 22 March: the local times from 00:00
  to 01:00 of that day do not exist and are read with the offset before the change.
  \<open>clock_tehran\<close> reads Wednesday 24 March 2021, 12:00 in Tehran, at every reading;
  \<open>ledger_march\<close> is an empty ledger whose current week is that of Monday 15 March 2021
  in Tehran.
\<close>

definition tehran_2021 :: zone where
  "tehran_2021 =
     \<lparr>utc_offset = (\<lambda>t. if t < 1616358600000 then 12600000 else 16200000),
      local_offset = (\<lambda>t. if t < 1616374800000 then 12600000 else 16200000)\<rparr>"



text \<open>
  Two clocks and two ledgers for the examples, in UTC. \<open>clock_wed_thu\<close> reads Wednesday
  30 July 2025, 12:00, six times and Thursday 31 July, 12:00, from then on;
  \<open>clock_aug\<close> starts on Wednesday 6 August 2025 and advances by a millisecond at each
  reading. \<open>ledger_wed\<close> is what the code builds on that Wednesday from an empty store and
  one coffee. \<open>ledger_july\<close> has the week of Monday 28 July as its current week and the
  weeks of 14 and 21 July before it; two transactions of the week of 21 July share the
  id \<open>2\<close>.
\<close>

definition clock_wed_thu :: clock where
  "clock_wed_thu n = (if n < 6 then 1753876800000 else 1753963200000)"

definition clock_aug :: clock where
  "clock_aug n = 1754500000000 + int n"

definition ledger_wed :: "int BudgetData" where
  "ledger_wed =
     fst (addTransaction (fixed_zone 0) clock_wed_thu 2 ''Coffee'' 5
            (fst (loadBudgetData (fixed_zone 0) clock_wed_thu 0 None)))"

definition ledger_july :: "int BudgetData" where
  "ledger_july =
     \<lparr>currentWeek =
        \<lparr>weekStart = 1753660800000,
         transactions =
           [\<lparr>id' = ''4'', name = ''Tea'', amount = 3, timestamp = 1753700000000\<rparr>],
         dailyTotal = 0, weeklyTotal = 3\<rparr>,
      previousWeeks =
        [\<lparr>weekStart = 1752451200000,
          transactions =
            [\<lparr>id' = ''1'', name = ''Rent'', amount = 700, timestamp = 1752500000000\<rparr>],
          dailyTotal = 0, weeklyTotal = 700\<rparr>,
         \<lparr>weekStart = 1753056000000,
          transactions =
            [\<lparr>id' = ''2'', name = ''Coffee'', amount = 4, timestamp = 1753100000000\<rparr>,
             \<lparr>id' = ''3'', name = ''Lunch'', amount = 12, timestamp = 1753200000000\<rparr>,
             \<lparr>id' = ''2'', name = ''Cake'', amount = 5, timestamp = 1753300000000\<rparr>],
          dailyTotal = 0, weeklyTotal = 21\<rparr>]\<rparr>"

chapter \<open>Properties\<close>

section \<open>The calendar\<close>

lemma div_step:
  fixes a n :: int
  assumes n: "0 < n"
  shows "(a + 1) div n = a div n + (if (a + 1) mod n = 0 then 1 else 0)"
proof (cases "(a + 1) mod n = 0")
  case True
  define q where "q = (a + 1) div n"
  have "a + 1 = n * q"
    using mult_div_mod_eq [of n "a + 1"] True by (simp add: q_def)
  then have "a = n * (q - 1) + (n - 1)" by (simp add: algebra_simps)
  then have "a div n = q - 1" by (rule int_div_pos_eq) (use n in simp_all)
  then show ?thesis using True by (simp add: q_def)
next
  case False
  define q where "q = (a + 1) div n"
  define r where "r = (a + 1) mod n"
  have r: "0 < r" "r < n"
    using False pos_mod_sign [OF n, of "a + 1"] pos_mod_bound [OF n, of "a + 1"]
    by (simp_all add: r_def)
  have "a + 1 = n * q + r"
    using mult_div_mod_eq [of n "a + 1"] by (simp add: q_def r_def)
  then have "a = n * q + (r - 1)" by simp
  then have "a div n = q" by (rule int_div_pos_eq) (use r in simp_all)
  then show ?thesis using False by (simp add: q_def)
qed

lemma mod_shift4: "((y::int) - 1968) mod 4 = y mod 4"
proof -
  have "(y - 1968) mod 4 = (y + 4 * (-492)) mod 4" by simp
  also have "\<dots> = y mod 4" by (rule mod_mult_self2)
  finally show ?thesis .
qed

lemma mod_shift100: "((y::int) - 1900) mod 100 = y mod 100"
proof -
  have "(y - 1900) mod 100 = (y + 100 * (-19)) mod 100" by simp
  also have "\<dots> = y mod 100" by (rule mod_mult_self2)
  finally show ?thesis .
qed

lemma mod_shift400: "((y::int) - 1600) mod 400 = y mod 400"
proof -
  have "(y - 1600) mod 400 = (y + 400 * (-4)) mod 400" by simp
  also have "\<dots> = y mod 400" by (rule mod_mult_self2)
  finally show ?thesis .
qed

lemma mod_100_4: "(y::int) mod 100 = 0 \<Longrightarrow> y mod 4 = 0"
proof -
  assume "y mod 100 = 0"
  then have "100 dvd y" by (rule mod_0_imp_dvd)
  moreover have "(4::int) dvd 100" by simp
  ultimately have "4 dvd y" by (rule dvd_trans [rotated])
  then show ?thesis by simp
qed

lemma mod_400_100: "(y::int) mod 400 = 0 \<Longrightarrow> y mod 100 = 0"
proof -
  assume "y mod 400 = 0"
  then have "400 dvd y" by (rule mod_0_imp_dvd)
  moreover have "(100::int) dvd 400" by simp
  ultimately have "100 dvd y" by (rule dvd_trans [rotated])
  then show ?thesis by simp
qed

text \<open>A year is as long as \<open>DaysInYear\<close> says: the two ECMA-262 formulas agree.\<close>

lemma DayFromYear_Suc: "DayFromYear (y + 1) = DayFromYear y + DaysInYear y"
proof -
  have a: "(y + 1 - 1969) div 4 = (y - 1969) div 4 + (if y mod 4 = 0 then 1 else 0)"
    using div_step [of 4 "y - 1969"] by (simp add: mod_shift4)
  have b: "(y + 1 - 1901) div 100 = (y - 1901) div 100 + (if y mod 100 = 0 then 1 else 0)"
    using div_step [of 100 "y - 1901"] by (simp add: mod_shift100)
  have c: "(y + 1 - 1601) div 400 = (y - 1601) div 400 + (if y mod 400 = 0 then 1 else 0)"
    using div_step [of 400 "y - 1601"] by (simp add: mod_shift400)
  have d: "y mod 100 = 0 \<Longrightarrow> y mod 4 = 0"
    by (rule mod_100_4)
  have e: "y mod 400 = 0 \<Longrightarrow> y mod 100 = 0"
    by (rule mod_400_100)
  show ?thesis
    unfolding DayFromYear_def DaysInYear_def a b c using d e by auto
qed

lemma DaysInYear_bounds: "365 \<le> DaysInYear y" "DaysInYear y \<le> 366"
  by (simp_all add: DaysInYear_def)

termination YearFromDay_search
proof (relation "measure (\<lambda>(y, day). if day < DayFromYear y
          then nat (DayFromYear y - day) + 366 else nat (day - DayFromYear y))")
  show "wf (measure (\<lambda>(y, day). if day < DayFromYear y
          then nat (DayFromYear y - day) + 366 else nat (day - DayFromYear y)))"
    by simp
next
  fix y day :: int
  assume a: "day < DayFromYear y"
  have "DayFromYear y = DayFromYear (y - 1) + DaysInYear (y - 1)"
    using DayFromYear_Suc [of "y - 1"] by simp
  with a DaysInYear_bounds [of "y - 1"]
  show "((y - 1, day), (y, day)) \<in> measure (\<lambda>(y, day). if day < DayFromYear y
          then nat (DayFromYear y - day) + 366 else nat (day - DayFromYear y))"
    by auto
next
  fix y day :: int
  assume a: "\<not> day < DayFromYear y" "DayFromYear (y + 1) \<le> day"
  with DayFromYear_Suc [of y] DaysInYear_bounds [of y]
  show "((y + 1, day), (y, day)) \<in> measure (\<lambda>(y, day). if day < DayFromYear y
          then nat (DayFromYear y - day) + 366 else nat (day - DayFromYear y))"
    by auto
qed

declare YearFromDay_search.simps [simp del]

lemma YearFromDay_search_valid:
  "DayFromYear (YearFromDay_search y day) \<le> day \<and>
   day < DayFromYear (YearFromDay_search y day + 1)"
proof (induction y day rule: YearFromDay_search.induct)
  case (1 y day)
  show ?case
  proof (cases "day < DayFromYear y")
    case True
    then have "YearFromDay_search y day = YearFromDay_search (y - 1) day"
      by (subst YearFromDay_search.simps) simp
    with "1.IH"(1) [OF True] show ?thesis by simp
  next
    case False
    show ?thesis
    proof (cases "DayFromYear (y + 1) \<le> day")
      case True
      with False have "YearFromDay_search y day = YearFromDay_search (y + 1) day"
        by (subst YearFromDay_search.simps) simp
      with "1.IH"(2) [OF False True] show ?thesis by simp
    next
      case nle: False
      with False have "YearFromDay_search y day = y"
        by (subst YearFromDay_search.simps) simp
      with False nle show ?thesis by simp
    qed
  qed
qed

lemma DayWithinYear_bounds:
  "0 \<le> DayWithinYear t" "DayWithinYear t < DaysInYear (YearFromTime t)"
  using YearFromDay_search_valid [of "1970 + Day t div 366" "Day t"]
    DayFromYear_Suc [of "YearFromTime t"]
  by (simp_all add: DayWithinYear_def YearFromTime_def)

lemma DayWithinYear_leap: "DayWithinYear t < 365 + InLeapYear t"
  using DayWithinYear_bounds(2) [of t] DaysInYear_bounds [of "YearFromTime t"]
  by (simp add: InLeapYear_def split: if_splits)

lemma InLeapYear_bounds: "0 \<le> InLeapYear t" "InLeapYear t \<le> 1"
  by (simp_all add: InLeapYear_def)

lemma MonthFromTime_range: "0 \<le> MonthFromTime t" "MonthFromTime t \<le> 11"
  by (simp_all add: MonthFromTime_def Let_def)

lemma MonthFromTime_cases:
  "MonthFromTime t \<in> {0, 1, 2, 3, 4, 5, 6, 7, 8, 9, 10, 11}"
  by (simp add: MonthFromTime_def Let_def)

lemma DateFromTime_eq:
  "DateFromTime t = DayWithinYear t - DayFromMonth (MonthFromTime t) (InLeapYear t) + 1"
proof -
  have "DateFromTime t = DayWithinYear t - DayFromMonth m (InLeapYear t) + 1"
    if "MonthFromTime t = m" "m \<in> {0, 1, 2, 3, 4, 5, 6, 7, 8, 9, 10, 11}" for m
    using that(2) unfolding DateFromTime_def Let_def that(1) DayFromMonth_def
    by (elim insertE emptyE) simp_all
  then show ?thesis using MonthFromTime_cases [of t] by blast
qed

lemma MonthFromTime_bracket:
  "DayWithinYear t < 365 + InLeapYear t \<Longrightarrow>
   DayWithinYear t - DayFromMonth (MonthFromTime t) (InLeapYear t) < 31"
  "0 \<le> DayWithinYear t \<Longrightarrow>
   0 \<le> DayWithinYear t - DayFromMonth (MonthFromTime t) (InLeapYear t)"
  using InLeapYear_bounds [of t]
  unfolding MonthFromTime_def Let_def DayFromMonth_def
  by (simp_all split: if_splits)

lemma DateFromTime_range: "1 \<le> DateFromTime t" "DateFromTime t \<le> 31"
  using MonthFromTime_bracket [of t] DayWithinYear_bounds(1) [of t] DayWithinYear_leap [of t]
  by (simp_all add: DateFromTime_eq)

lemma Day_eq_calendar:
  "Day t = DayFromYear (YearFromTime t)
           + DayFromMonth (MonthFromTime t) (InLeapYear t) + DateFromTime t - 1"
  by (simp add: DateFromTime_eq DayWithinYear_def)

lemma MakeDay_calendar:
  "MakeDay (YearFromTime t) (MonthFromTime t) dt = Day t + (dt - DateFromTime t)"
proof -
  have "MonthFromTime t div 12 = 0" "MonthFromTime t mod 12 = MonthFromTime t"
    using MonthFromTime_range [of t] by simp_all
  then show ?thesis
    by (simp add: MakeDay_def Let_def Day_eq_calendar [of t] InLeapYear_def)
qed

lemma MakeDate_Day: "MakeDate (Day t + k) (TimeWithinDay t) = t + k * msPerDay"
  using mult_div_mod_eq [of msPerDay t]
  by (simp add: MakeDate_def Day_def TimeWithinDay_def algebra_simps)

section \<open>The week\<close>

lemma setDate_getDate:
  "setDate z d (getDate z d + k) = UTC z (LocalTime z d + k * msPerDay)"
  by (simp add: setDate_def getDate_def Let_def MakeDay_calendar MakeDate_Day)

lemma Day_shift: "Day (t + k * msPerDay) = Day t + k"
  by (simp add: Day_def msPerDay_def)

lemma Day_MakeDate: "Day (k * msPerDay) = k" "TimeWithinDay (k * msPerDay) = 0"
  by (simp_all add: Day_def TimeWithinDay_def msPerDay_def)

lemma Day_eqI: "k * msPerDay \<le> t \<Longrightarrow> t < (k + 1) * msPerDay \<Longrightarrow> Day t = k"
proof -
  assume a: "k * msPerDay \<le> t" "t < (k + 1) * msPerDay"
  have "t = msPerDay * k + (t - k * msPerDay)" by simp
  then have "t div msPerDay = k"
    by (rule int_div_pos_eq) (use a in \<open>simp_all add: algebra_simps\<close>)
  then show ?thesis by (simp add: Day_def)
qed

lemma week_shift:
  "(if (a + 4) mod 7 = 0 then - 6 else 1) - (a + 4) mod 7 = - ((a + 3) mod (7::int))"
proof -
  define r where "r = (a + 3) mod 7"
  have r: "0 \<le> r" "r < 7" by (simp_all add: r_def)
  have "(a + 4) mod 7 = (r + 1) mod 7"
    using mod_add_left_eq [of "a + 3" 7 1] by (simp add: r_def add.commute)
  moreover have "(r + 1) mod 7 = (if r = 6 then 0 else r + 1)"
    using r by simp
  ultimately show ?thesis
    using r unfolding r_def [symmetric] by simp
qed

lemma monday_fix: "((a::int) - (a + 3) mod 7 + 3) mod 7 = 0"
proof -
  have "a - (a + 3) mod 7 + 3 = a + 3 - (a + 3) mod 7" by simp
  also have "\<dots> = 7 * ((a + 3) div 7)" by (rule minus_mod_eq_mult_div)
  finally show ?thesis by simp
qed

lemma monday_mod: "(a - (a + 3) mod 7 + 4) mod 7 = (1::int)"
proof -
  have "a - (a + 3) mod 7 + 4 = (a - (a + 3) mod 7 + 3) + 1" by simp
  then have "(a - (a + 3) mod 7 + 4) mod 7 = ((a - (a + 3) mod 7 + 3) mod 7 + 1) mod 7"
    by (simp only: mod_add_left_eq)
  then show ?thesis by (simp only: monday_fix) simp
qed

subsection \<open>Zones\<close>

lemma calendar_zone_Day: "calendar_zone z \<Longrightarrow> Day (LocalTime z (UTC z x)) = Day x"
  by (simp add: calendar_zone_def)

lemma calendar_zone_midnight:
  "calendar_zone z \<Longrightarrow> LocalTime z (UTC z (k * msPerDay)) = k * msPerDay"
  by (simp add: calendar_zone_def)

lemma LocalTime_fixed: "LocalTime (fixed_zone c) t = t + c"
  by (simp add: LocalTime_def fixed_zone_def)

lemma UTC_fixed: "UTC (fixed_zone c) t = t - c"
  by (simp add: UTC_def fixed_zone_def)

lemma calendar_zone_fixed: "calendar_zone (fixed_zone c)"
  by (simp add: calendar_zone_def LocalTime_fixed UTC_fixed)

lemma new_york_roundtrip:
  "x < 1741485600000 \<or> 1741489200000 \<le> x \<Longrightarrow>
   LocalTime new_york_2025 (UTC new_york_2025 x) = x"
  by (auto simp add: LocalTime_def UTC_def new_york_2025_def)

lemma new_york_skipped:
  "1741485600000 \<le> x \<Longrightarrow> x < 1741489200000 \<Longrightarrow>
   LocalTime new_york_2025 (UTC new_york_2025 x) = x + 3600000"
  by (simp add: LocalTime_def UTC_def new_york_2025_def)

lemma calendar_zone_new_york: "calendar_zone new_york_2025"
  unfolding calendar_zone_def
proof (intro conjI allI)
  fix x :: int
  show "Day (LocalTime new_york_2025 (UTC new_york_2025 x)) = Day x"
  proof (cases "1741485600000 \<le> x \<and> x < 1741489200000")
    case True
    then have "Day x = 20156" "Day (x + 3600000) = 20156"
      by (intro Day_eqI; simp add: msPerDay_def)+
    with True show ?thesis by (simp add: new_york_skipped)
  next
    case False
    then have "x < 1741485600000 \<or> 1741489200000 \<le> x" by linarith
    then show ?thesis by (simp only: new_york_roundtrip)
  qed
next
  fix k :: int
  have "k * msPerDay < 1741485600000 \<or> 1741489200000 \<le> k * msPerDay"
  proof (cases "k \<le> 20156")
    case True
    then have "k * 86400000 \<le> 20156 * 86400000" by simp
    then show ?thesis by (simp add: msPerDay_def)
  next
    case False
    then have "20157 * 86400000 \<le> k * 86400000" by simp
    then show ?thesis by (simp add: msPerDay_def)
  qed
  then show "LocalTime new_york_2025 (UTC new_york_2025 (k * msPerDay)) = k * msPerDay"
    by (rule new_york_roundtrip)
qed

subsection \<open>The start and the end of the week\<close>

lemma days_since_monday_eq: "days_since_monday t = (Day t + 3) mod 7"
proof -
  have "((Day t + 4) mod 7 + 6) mod 7 = (Day t + 4 + 6) mod 7"
    by (simp only: mod_add_left_eq)
  also have "\<dots> = (Day t + 3 + 7) mod 7" by simp
  also have "\<dots> = (Day t + 3) mod 7" by (simp only: mod_add_self2)
  finally show ?thesis by (simp add: days_since_monday_def WeekDay_def)
qed

lemma Day_monday_time:
  "Day (monday_time z d) = Day (LocalTime z d) - (Day (LocalTime z d) + 3) mod 7"
proof -
  let ?t = "LocalTime z d"
  have "monday_time z d = ?t + - ((Day ?t + 3) mod 7) * msPerDay"
    by (simp add: monday_time_def days_since_monday_eq)
  then have "Day (monday_time z d) = Day ?t + - ((Day ?t + 3) mod 7)"
    by (simp only: Day_shift)
  then show ?thesis by simp
qed

lemma monday_midnight_calendar:
  "Day (monday_midnight z d) = Day (monday_time z d)"
  "TimeWithinDay (monday_midnight z d) = 0"
  "WeekDay (monday_midnight z d) = 1"
  by (simp_all add: monday_midnight_def Day_MakeDate WeekDay_def Day_monday_time monday_mod)

lemma reads_back_stays: "reads_back z x \<Longrightarrow> stays_on_day z x"
  by (simp add: reads_back_def stays_on_day_def)

lemma calendar_zone_stays: "calendar_zone z \<Longrightarrow> stays_on_day z x"
  by (simp add: stays_on_day_def calendar_zone_Day)

lemma calendar_zone_reads_back: "calendar_zone z \<Longrightarrow> reads_back z (monday_midnight z d)"
  by (simp add: reads_back_def monday_midnight_def calendar_zone_midnight)

lemma reads_back_fixed: "reads_back (fixed_zone c) x"
  by (simp add: reads_back_def LocalTime_fixed UTC_fixed)

lemma stays_on_day_fixed: "stays_on_day (fixed_zone c) x"
  by (rule reads_back_stays) (rule reads_back_fixed)

lemma getWeekStart_instant:
  assumes "stays_on_day z (monday_time z d)"
  shows "getWeekStart z d = UTC z (monday_midnight z d)"
proof -
  let ?t = "LocalTime z d"
  let ?s = "(Day ?t + 3) mod 7"
  let ?day = "getDay z d"
  have "getDate z d - ?day + (if ?day = 0 then - 6 else 1) = getDate z d + - ?s"
    using week_shift [of "Day ?t"] by (simp add: getDay_def WeekDay_def)
  then have sd: "setDate z d (getDate z d - ?day + (if ?day = 0 then - 6 else 1))
        = UTC z (?t + - ?s * msPerDay)"
    by (simp only: setDate_getDate)
  have m: "?t + - ?s * msPerDay = monday_time z d"
    by (simp add: monday_time_def days_since_monday_eq)
  have D: "Day (LocalTime z (UTC z (monday_time z d))) = Day (monday_time z d)"
    using assms by (simp only: stays_on_day_def)
  show ?thesis
    unfolding getWeekStart_def Let_def sd m setHours_def D
    by (simp add: MakeDate_def MakeTime_def monday_midnight_def)
qed

lemma getWeekStart_local_day:
  assumes "stays_on_day z (monday_time z d)" and "stays_on_day z (monday_midnight z d)"
  shows "Day (LocalTime z (getWeekStart z d)) = Day (monday_time z d)"
  using assms(2)
  by (simp only: getWeekStart_instant [OF assms(1)] stays_on_day_def monday_midnight_calendar)

lemma getWeekStart_local_time:
  assumes "stays_on_day z (monday_time z d)" and "reads_back z (monday_midnight z d)"
  shows "LocalTime z (getWeekStart z d) = monday_midnight z d"
  using assms(2) by (simp only: getWeekStart_instant [OF assms(1)] reads_back_def)



lemma getWeekStart_fixed_point:
  assumes "stays_on_day z (monday_time z d)" and "reads_back z (monday_midnight z d)"
  shows "getWeekStart z (getWeekStart z d) = getWeekStart z d"
proof -
  let ?M = "monday_midnight z d"
  let ?ws = "getWeekStart z d"
  have L: "LocalTime z ?ws = ?M" by (rule getWeekStart_local_time [OF assms])
  have "(Day ?M + 3) mod 7 = 0"
    by (simp only: monday_midnight_calendar Day_monday_time monday_fix)
  then have mt: "monday_time z ?ws = ?M"
    by (simp add: monday_time_def days_since_monday_eq L)
  then have mm: "monday_midnight z ?ws = ?M"
    by (simp add: monday_midnight_def [of z ?ws] monday_midnight_calendar)
      (simp add: monday_midnight_def)
  have "stays_on_day z (monday_time z ?ws)"
    unfolding mt using assms(2) by (rule reads_back_stays)
  then have "getWeekStart z ?ws = UTC z (monday_midnight z ?ws)"
    by (rule getWeekStart_instant)
  also have "\<dots> = UTC z ?M" by (simp only: mm)
  also have "\<dots> = ?ws" by (rule getWeekStart_instant [OF assms(1), symmetric])
  finally show ?thesis .
qed


lemma week_length: "6 * msPerDay + MakeTime 23 59 59 999 = 604799999"
  by (simp add: msPerDay_def MakeTime_def)

lemma getWeekEnd_instant:
  assumes "stays_on_day z (monday_time z d)" and "stays_on_day z (monday_midnight z d)"
    and "stays_on_day z (LocalTime z (getWeekStart z d) + 6 * msPerDay)"
  shows "getWeekEnd z d = UTC z (monday_midnight z d + 604799999)"
proof -
  let ?ws = "getWeekStart z d"
  let ?X = "Day (monday_time z d)"
  have D: "Day (LocalTime z ?ws) = ?X" by (rule getWeekStart_local_day [OF assms(1,2)])
  have sd: "setDate z ?ws (getDate z ?ws + 6) = UTC z (LocalTime z ?ws + 6 * msPerDay)"
    by (simp only: setDate_getDate)
  have "Day (LocalTime z (UTC z (LocalTime z ?ws + 6 * msPerDay)))
      = Day (LocalTime z ?ws + 6 * msPerDay)"
    using assms(3) by (simp only: stays_on_day_def)
  also have "\<dots> = ?X + 6" by (simp only: Day_shift D)
  finally have "setHours z (UTC z (LocalTime z ?ws + 6 * msPerDay)) 23 59 59 999
        = UTC z ((?X + 6) * msPerDay + MakeTime 23 59 59 999)"
    by (simp add: setHours_def Let_def MakeDate_def)
  also have "(?X + 6) * msPerDay + MakeTime 23 59 59 999 = monday_midnight z d + 604799999"
    using week_length by (simp add: monday_midnight_def algebra_simps)
  finally show ?thesis
    unfolding getWeekEnd_def Let_def sd .
qed

lemma getWeekEnd_diff:
  assumes "stays_on_day z (monday_time z d)" and "stays_on_day z (monday_midnight z d)"
    and "stays_on_day z (LocalTime z (getWeekStart z d) + 6 * msPerDay)"
  shows "getWeekEnd z d - getWeekStart z d =
     604799999
     - (local_offset z (monday_midnight z d + 604799999)
        - local_offset z (monday_midnight z d))"
  by (simp add: getWeekEnd_instant [OF assms] getWeekStart_instant [OF assms(1)] UTC_def)



lemma getWeekStart_idem:
  assumes "calendar_zone z"
  shows "getWeekStart z (getWeekStart z d) = getWeekStart z d"
  using calendar_zone_stays [OF assms] calendar_zone_reads_back [OF assms]
  by (rule getWeekStart_fixed_point)


subsection \<open>Weeks around a clock change\<close>

lemma new_york_week_of_3_March:
  "getWeekStart new_york_2025 1741194000000 = 1740978000000"
  "getWeekEnd new_york_2025 1741194000000 = 1741579199999"
  by code_simp+


lemma tehran_week_of_22_March:
  "getWeekStart tehran_2021 1616571000000 = 1616358600000"
  "getWeekEnd tehran_2021 1616571000000 = 1616959799999"
  "monday_midnight tehran_2021 1616571000000 = 1616371200000"
  "LocalTime tehran_2021 1616358600000 = 1616374800000"
  "getDay tehran_2021 1616358600000 = 1"
  "TimeWithinDay 1616374800000 = 3600000"
  "stays_on_day tehran_2021 (monday_time tehran_2021 1616571000000)"
  "stays_on_day tehran_2021 (monday_midnight tehran_2021 1616571000000)"
  "stays_on_day tehran_2021 (LocalTime tehran_2021 1616358600000 + 6 * msPerDay)"
  "\<not> reads_back tehran_2021 (monday_midnight tehran_2021 1616571000000)"
  by code_simp+

lemma tehran_week_length:
  "getTime (getWeekEnd tehran_2021 1616571000000)
     - getTime (getWeekStart tehran_2021 1616571000000) = 601199999"
  "local_offset tehran_2021 (monday_midnight tehran_2021 1616571000000 + 604799999)
     - local_offset tehran_2021 (monday_midnight tehran_2021 1616571000000) = 3600000"
proof -
  show "getTime (getWeekEnd tehran_2021 1616571000000)
     - getTime (getWeekStart tehran_2021 1616571000000) = 601199999"
    by (simp add: tehran_week_of_22_March getTime_def)
  show "local_offset tehran_2021 (monday_midnight tehran_2021 1616571000000 + 604799999)
     - local_offset tehran_2021 (monday_midnight tehran_2021 1616571000000) = 3600000"
    unfolding tehran_week_of_22_March by (simp add: tehran_2021_def)
qed




text \<open>
  Claim C7, as the code has it. \<open>getWeekEnd d\<close> sets two more local times: the local
  time of \<open>getWeekStart d\<close> moved six days on, and then 23:59:59.999 of the day this lands
  on. For every zone and date \<open>d\<close> such that three local times that the code sets on the
  way are still on their day when the zone turns them into an instant and reads them
  back (the local time of \<open>d\<close> moved back to the Monday of its week, 00:00 of that
  Monday, and the local time of \<open>getWeekStart d\<close> moved six days on): \<open>getWeekStart d\<close> is
  the instant that the zone gives to 00:00 of that Monday, \<open>getWeekEnd d\<close> is the instant
  that it gives to the local time six days, 23 hours, 59 minutes, 59 seconds and 999
  milliseconds (604799999 ms) later, and the two instants are that far apart less the
  difference between the offsets that the zone uses for these two local times: exactly
  604799999 ms when the two offsets are equal. In a zone of fixed offset the two
  instants are 604799999 ms apart for every date.
\<close>

theorem getWeekEnd_minus_getWeekStart:
  assumes "stays_on_day z (monday_time z d)"
    and "stays_on_day z (monday_midnight z d)"
    and "stays_on_day z (LocalTime z (getWeekStart z d) + 6 * msPerDay)"
  shows "getWeekStart z d = UTC z (monday_midnight z d)
   \<and> getWeekEnd z d = UTC z (monday_midnight z d + 604799999)
   \<and> 6 * msPerDay + MakeTime 23 59 59 999 = 604799999
   \<and> getTime (getWeekEnd z d) - getTime (getWeekStart z d)
        = 604799999
          - (local_offset z (monday_midnight z d + 604799999)
             - local_offset z (monday_midnight z d))
   \<and> (local_offset z (monday_midnight z d + 604799999)
         = local_offset z (monday_midnight z d)
        \<longrightarrow> getTime (getWeekEnd z d) - getTime (getWeekStart z d) = 604799999)
   \<and> getTime (getWeekEnd (fixed_zone c) d') - getTime (getWeekStart (fixed_zone c) d')
        = 604799999"
proof (intro conjI impI)
  show "getWeekStart z d = UTC z (monday_midnight z d)"
    using assms(1) by (rule getWeekStart_instant)
  show "getWeekEnd z d = UTC z (monday_midnight z d + 604799999)"
    using assms by (rule getWeekEnd_instant)
  show "6 * msPerDay + MakeTime 23 59 59 999 = 604799999" by (rule week_length)
  show diff: "getTime (getWeekEnd z d) - getTime (getWeekStart z d)
        = 604799999
          - (local_offset z (monday_midnight z d + 604799999)
             - local_offset z (monday_midnight z d))"
    using getWeekEnd_diff [OF assms] by (simp add: getTime_def)
  show "getTime (getWeekEnd z d) - getTime (getWeekStart z d) = 604799999"
    if "local_offset z (monday_midnight z d + 604799999)
         = local_offset z (monday_midnight z d)"
    using diff that by simp
  show "getTime (getWeekEnd (fixed_zone c) d') - getTime (getWeekStart (fixed_zone c) d')
        = 604799999"
    using getWeekEnd_diff [OF stays_on_day_fixed stays_on_day_fixed stays_on_day_fixed,
        of c d']
    by (simp add: getTime_def fixed_zone_def)
qed

theorem getWeekEnd_minus_getWeekStart_witness:
  "stays_on_day (fixed_zone 0) (monday_time (fixed_zone 0) 1753876800000)
   \<and> stays_on_day (fixed_zone 0) (monday_midnight (fixed_zone 0) 1753876800000)
   \<and> stays_on_day (fixed_zone 0)
        (LocalTime (fixed_zone 0) (getWeekStart (fixed_zone 0) 1753876800000) + 6 * msPerDay)
   \<and> local_offset (fixed_zone 0) (monday_midnight (fixed_zone 0) 1753876800000 + 604799999)
       = local_offset (fixed_zone 0) (monday_midnight (fixed_zone 0) 1753876800000)
   \<and> getWeekStart (fixed_zone 0) 1753876800000 = 1753660800000
   \<and> getWeekEnd (fixed_zone 0) 1753876800000 = 1754265599999
   \<and> getTime (getWeekEnd (fixed_zone 0) 1753876800000)
       - getTime (getWeekStart (fixed_zone 0) 1753876800000) = 604799999"
proof -
  have o: "local_offset (fixed_zone 0) (monday_midnight (fixed_zone 0) 1753876800000 + 604799999)
      = local_offset (fixed_zone 0) (monday_midnight (fixed_zone 0) 1753876800000)"
    by (simp add: fixed_zone_def)
  have s: "getWeekStart (fixed_zone 0) 1753876800000 = 1753660800000" by code_simp
  have e: "getWeekEnd (fixed_zone 0) 1753876800000 = 1754265599999" by code_simp
  have h: "stays_on_day (fixed_zone 0) (monday_time (fixed_zone 0) 1753876800000)"
    "stays_on_day (fixed_zone 0) (monday_midnight (fixed_zone 0) 1753876800000)"
    "stays_on_day (fixed_zone 0)
        (LocalTime (fixed_zone 0) (getWeekStart (fixed_zone 0) 1753876800000) + 6 * msPerDay)"
    by (rule stays_on_day_fixed)+
  show ?thesis
    using o s e h getWeekEnd_minus_getWeekStart [OF h]
    by blast
qed

text \<open>
  Claim C7 as stated fails where the clocks change within the week. In New York the
  week of Wednesday 5 March 2025, 12:00 local time, starts on Monday 3 March, 00:00 at
  five hours behind UTC, and ends on Sunday 9 March, 23:59:59.999 at four hours behind
  UTC: the two instants are 6 days, 22 hours, 59 minutes, 59 seconds and 999 milliseconds
  apart (601199999 ms).
\<close>

theorem getWeekEnd_minus_getWeekStart_counterexample:
  "getWeekStart new_york_2025 1741194000000 = 1740978000000
   \<and> getWeekEnd new_york_2025 1741194000000 = 1741579199999
   \<and> getTime (getWeekEnd new_york_2025 1741194000000)
       - getTime (getWeekStart new_york_2025 1741194000000) = 601199999
   \<and> getTime (getWeekEnd new_york_2025 1741194000000)
       - getTime (getWeekStart new_york_2025 1741194000000) \<noteq> 604799999"
  by (simp add: new_york_week_of_3_March getTime_def)

section \<open>Strings\<close>

termination digits
  by (relation "measure nat") auto

declare digits.simps [simp del]

lemma digit_value_digit_char: "0 \<le> n \<Longrightarrow> n < 10 \<Longrightarrow> digit_value (digit_char n) = n"
  by (simp add: digit_value_def digit_char_def)

lemma dec_value_snoc: "dec_value (s @ [c]) = 10 * dec_value s + digit_value c"
  by (simp add: dec_value_def)

lemma dec_value_digits: "0 \<le> n \<Longrightarrow> dec_value (digits n) = n"
proof (induction n rule: digits.induct)
  case (1 n)
  show ?case
  proof (cases "n < 10")
    case True
    then have "digits n = [digit_char n]" by (subst digits.simps) simp
    then show ?thesis
      using True "1.prems" by (simp add: dec_value_def digit_value_digit_char)
  next
    case False
    then have d: "digits n = digits (n div 10) @ [digit_char (n mod 10)]"
      by (subst digits.simps) simp
    have "dec_value (digits (n div 10)) = n div 10"
      using "1.IH" [OF False] "1.prems" by simp
    then show ?thesis
      unfolding d dec_value_snoc by (simp add: digit_value_digit_char)
  qed
qed

lemma dec_value_zeros: "dec_value (replicate k CHR ''0'' @ s) = dec_value s"
proof -
  have "foldl (\<lambda>a c. 10 * a + digit_value c) 0 (replicate k CHR ''0'') = 0"
    by (induction k) (simp_all add: digit_value_def)
  then show ?thesis by (simp add: dec_value_def)
qed

lemma dec_value_padded:
  "0 \<le> n \<Longrightarrow> dec_value (ToZeroPaddedDecimalString n k) = n"
  by (simp add: ToZeroPaddedDecimalString_def toString_def Let_def dec_value_zeros
      dec_value_digits)

lemma digits_no_minus: "0 \<le> n \<Longrightarrow> CHR ''-'' \<notin> set (digits n)"
proof (induction n rule: digits.induct)
  case (1 n)
  have dc: "digit_char k \<noteq> CHR ''-''" if "0 \<le> k" "k < 10" for k
  proof
    assume "digit_char k = CHR ''-''"
    then have "digit_value (digit_char k) = digit_value CHR ''-''" by simp
    then show False using that by (simp add: digit_value_digit_char) (simp add: digit_value_def)
  qed
  show ?case
  proof (cases "n < 10")
    case True
    then have "digits n = [digit_char n]" by (subst digits.simps) simp
    then show ?thesis using dc [of n] True "1.prems" by simp
  next
    case False
    then have d: "digits n = digits (n div 10) @ [digit_char (n mod 10)]"
      by (subst digits.simps) simp
    have "CHR ''-'' \<notin> set (digits (n div 10))"
      using "1.IH" [OF False] "1.prems" by simp
    then show ?thesis
      unfolding d using dc [of "n mod 10"] by simp
  qed
qed

lemma padded_no_minus:
  "0 \<le> n \<Longrightarrow> CHR ''-'' \<notin> set (ToZeroPaddedDecimalString n k)"
  using digits_no_minus [of n]
  by (auto simp add: ToZeroPaddedDecimalString_def toString_def Let_def)

lemma length_digits: "0 \<le> n \<Longrightarrow> n < 100 \<Longrightarrow> length (digits n) \<le> 2"
proof -
  assume n: "0 \<le> n" "n < 100"
  show ?thesis
  proof (cases "n < 10")
    case True
    then have "digits n = [digit_char n]" by (subst digits.simps) simp
    then show ?thesis by simp
  next
    case False
    then have d: "digits n = digits (n div 10) @ [digit_char (n mod 10)]"
      by (subst digits.simps) simp
    have "n div 10 < 10" using n by simp
    then have "digits (n div 10) = [digit_char (n div 10)]" by (subst digits.simps) simp
    then show ?thesis unfolding d by simp
  qed
qed

lemma length_padded2:
  "0 \<le> n \<Longrightarrow> n < 100 \<Longrightarrow> length (ToZeroPaddedDecimalString n 2) = 2"
  using length_digits [of n]
  by (simp add: ToZeroPaddedDecimalString_def toString_def Let_def)

lemma padded_inj:
  assumes "0 \<le> a" "0 \<le> b"
    and eq: "ToZeroPaddedDecimalString a k = ToZeroPaddedDecimalString b k"
  shows "a = b"
proof -
  have "a = dec_value (ToZeroPaddedDecimalString a k)"
    using assms(1) by (rule dec_value_padded [symmetric])
  also have "\<dots> = dec_value (ToZeroPaddedDecimalString b k)"
    by (rule arg_cong [OF eq])
  also have "\<dots> = b"
    using assms(2) by (rule dec_value_padded)
  finally show ?thesis .
qed

lemma year_part_inj:
  assumes "(if 0 \<le> y1 then [] else ''-'') @ ToZeroPaddedDecimalString \<bar>y1\<bar> 4
         = (if 0 \<le> y2 then [] else ''-'') @ ToZeroPaddedDecimalString \<bar>y2\<bar> 4"
  shows "y1 = y2"
proof -
  have m: "CHR ''-'' \<notin> set (ToZeroPaddedDecimalString \<bar>y\<bar> 4)" for y
    by (rule padded_no_minus) simp
  consider "0 \<le> y1" "0 \<le> y2" | "y1 < 0" "y2 < 0" | "0 \<le> y1" "y2 < 0" | "y1 < 0" "0 \<le> y2"
    by linarith
  then show ?thesis
  proof cases
    case 1
    with assms have "ToZeroPaddedDecimalString \<bar>y1\<bar> 4 = ToZeroPaddedDecimalString \<bar>y2\<bar> 4"
      by simp
    then have "\<bar>y1\<bar> = \<bar>y2\<bar>" by (intro padded_inj [of _ _ 4]) simp_all
    with 1 show ?thesis by simp
  next
    case 2
    with assms have "ToZeroPaddedDecimalString \<bar>y1\<bar> 4 = ToZeroPaddedDecimalString \<bar>y2\<bar> 4"
      by simp
    then have "\<bar>y1\<bar> = \<bar>y2\<bar>" by (intro padded_inj [of _ _ 4]) simp_all
    with 2 show ?thesis by simp
  next
    case 3
    with assms have "ToZeroPaddedDecimalString \<bar>y1\<bar> 4
        = CHR ''-'' # ToZeroPaddedDecimalString \<bar>y2\<bar> 4"
      by simp
    then have "CHR ''-'' \<in> set (ToZeroPaddedDecimalString \<bar>y1\<bar> 4)" by simp
    with m [of y1] show ?thesis by simp
  next
    case 4
    with assms have "CHR ''-'' # ToZeroPaddedDecimalString \<bar>y1\<bar> 4
        = ToZeroPaddedDecimalString \<bar>y2\<bar> 4"
      by simp
    then have "CHR ''-'' \<in> set (ToZeroPaddedDecimalString \<bar>y2\<bar> 4)"
      by (metis list.set_intros(1))
    with m [of y2] show ?thesis by simp
  qed
qed

lemma length_weekdayName: "length (weekdayName w) = 3"
  by (simp add: weekdayName_def)

lemma length_monthName: "length (monthName m) = 3"
  by (simp add: monthName_def)

lemma monthName_inj:
  assumes "monthName a = monthName b"
    and "a \<in> {0, 1, 2, 3, 4, 5, 6, 7, 8, 9, 10, 11}"
    and "b \<in> {0, 1, 2, 3, 4, 5, 6, 7, 8, 9, 10, 11}"
  shows "a = b"
proof -
  have "monthName k = monthName b \<Longrightarrow> k = b" if "k \<in> {0, 1, 2, 3, 4, 5, 6, 7, 8, 9, 10, 11}" for k
    using assms(3) that unfolding monthName_def
    by (elim insertE emptyE) simp_all
  then show ?thesis using assms by blast
qed

lemma DateString_parts:
  assumes "DateString t1 = DateString t2"
  shows "MonthFromTime t1 = MonthFromTime t2"
    and "DateFromTime t1 = DateFromTime t2"
    and "YearFromTime t1 = YearFromTime t2"
proof -
  have l2: "length (ToZeroPaddedDecimalString (DateFromTime t) 2) = 2" for t
    using DateFromTime_range [of t] by (intro length_padded2) simp_all
  from assms have
    mn: "monthName (MonthFromTime t1) = monthName (MonthFromTime t2)" and
    dd: "ToZeroPaddedDecimalString (DateFromTime t1) 2
          = ToZeroPaddedDecimalString (DateFromTime t2) 2" and
    yy: "(if 0 \<le> YearFromTime t1 then [] else ''-'')
            @ ToZeroPaddedDecimalString \<bar>YearFromTime t1\<bar> 4
          = (if 0 \<le> YearFromTime t2 then [] else ''-'')
            @ ToZeroPaddedDecimalString \<bar>YearFromTime t2\<bar> 4"
    unfolding DateString_def Let_def
    by (simp_all add: append_eq_append_conv length_weekdayName length_monthName l2)
  show "MonthFromTime t1 = MonthFromTime t2"
    using mn MonthFromTime_cases [of t1] MonthFromTime_cases [of t2] by (rule monthName_inj)
  show "DateFromTime t1 = DateFromTime t2"
    using DateFromTime_range(1) [of t1] DateFromTime_range(1) [of t2]
    by (intro padded_inj [OF _ _ dd]) simp_all
  show "YearFromTime t1 = YearFromTime t2"
    using yy by (rule year_part_inj)
qed

lemma DateString_inj: "DateString t1 = DateString t2 \<Longrightarrow> Day t1 = Day t2"
proof -
  assume "DateString t1 = DateString t2"
  note p = DateString_parts [OF this]
  have "InLeapYear t1 = InLeapYear t2" by (simp add: InLeapYear_def p(3))
  then show ?thesis
    by (simp add: Day_eq_calendar [of t1] Day_eq_calendar [of t2] p)
qed

lemma calendar_cong:
  assumes "Day t1 = Day t2"
  shows "YearFromTime t1 = YearFromTime t2"
    and "MonthFromTime t1 = MonthFromTime t2"
    and "DateFromTime t1 = DateFromTime t2"
    and "WeekDay t1 = WeekDay t2"
proof -
  show y: "YearFromTime t1 = YearFromTime t2" by (simp add: YearFromTime_def assms)
  have l: "InLeapYear t1 = InLeapYear t2" by (simp add: InLeapYear_def y)
  have d: "DayWithinYear t1 = DayWithinYear t2" by (simp add: DayWithinYear_def y assms)
  show m: "MonthFromTime t1 = MonthFromTime t2" by (simp add: MonthFromTime_def l d)
  show "DateFromTime t1 = DateFromTime t2" by (simp add: DateFromTime_eq l d m)
  show "WeekDay t1 = WeekDay t2" by (simp add: WeekDay_def assms)
qed

lemma DateString_cong: "Day t1 = Day t2 \<Longrightarrow> DateString t1 = DateString t2"
proof -
  assume "Day t1 = Day t2"
  note c = calendar_cong [OF this]
  show ?thesis by (simp only: DateString_def c)
qed

lemma isSameDay_iff:
  "isSameDay z a b \<longleftrightarrow> Day (LocalTime z a) = Day (LocalTime z b)"
  unfolding isSameDay_def toDateString_def
  using DateString_inj DateString_cong by blast

section \<open>The week label\<close>













section \<open>The ledger\<close>

lemma createWeekData_eq:
  "createWeekData z clk k ws txs =
     (\<lparr>weekStart = ws, transactions = txs,
       dailyTotal = calculateDailyTotal z txs (clk k),
       weeklyTotal = calculateWeeklyTotal z txs ws\<rparr>, Suc k)"
  by (simp add: createWeekData_def new_Date_def)

lemma isSameWeek_iff:
  "isSameWeek z a b \<longleftrightarrow> getWeekStart z a = getWeekStart z b"
  by (simp add: isSameWeek_def getTime_def)

lemma isSameWeek_target:
  "calendar_zone z \<Longrightarrow>
   isSameWeek z a (getWeekStart z t) \<longleftrightarrow> getWeekStart z a = getWeekStart z t"
  by (simp add: isSameWeek_iff getWeekStart_idem)

lemmas isSameWeek_utc = isSameWeek_target [OF calendar_zone_fixed]

lemma updateWeek_other:
  "\<not> isSameWeek z (weekStart week) target \<Longrightarrow>
   updateWeek z clk tid target k week = (week, k)"
  by (simp add: updateWeek_def)

lemma updateWeek_match:
  "isSameWeek z (weekStart week) target \<Longrightarrow>
   updateWeek z clk tid target k week =
     (\<lparr>weekStart = weekStart week,
       transactions = filter (\<lambda>t. id' t \<noteq> tid) (transactions week),
       dailyTotal = calculateDailyTotal z
          (filter (\<lambda>t. id' t \<noteq> tid) (transactions week)) (clk k),
       weeklyTotal = calculateWeeklyTotal z
          (filter (\<lambda>t. id' t \<noteq> tid) (transactions week)) (weekStart week)\<rparr>, Suc k)"
  by (simp add: updateWeek_def createWeekData_eq)

lemma snd_updateWeek:
  "snd (updateWeek z clk tid target k week) =
     k + (if isSameWeek z (weekStart week) target then 1 else 0)"
  by (simp add: updateWeek_other updateWeek_match)

lemma length_map_clock: "length (fst (map_clock f k xs)) = length xs"
  by (induction xs arbitrary: k) (simp_all add: split_beta Let_def)

lemma nth_map_clock:
  "i < length xs \<Longrightarrow>
   fst (map_clock f k xs) ! i = fst (f (snd (map_clock f k (take i xs))) (xs ! i))"
proof (induction xs arbitrary: k i)
  case Nil
  then show ?case by simp
next
  case (Cons x xs)
  show ?case
  proof (cases i)
    case 0
    then show ?thesis by (simp add: split_beta Let_def)
  next
    case (Suc j)
    with Cons.prems have "j < length xs" by simp
    from Cons.IH [OF this] Suc show ?thesis by (simp add: split_beta Let_def)
  qed
qed

lemma snd_map_clock_updateWeek:
  "snd (map_clock (updateWeek z clk tid target) k ws) =
     k + length (filter (\<lambda>w. isSameWeek z (weekStart w) target) ws)"
  by (induction ws arbitrary: k) (simp_all add: split_beta Let_def snd_updateWeek)

lemma removeTransaction_currentWeek:
  "currentWeek (fst (removeTransaction z clk k l tid target)) =
     fst (updateWeek z clk tid (getWeekStart z target) k (currentWeek l))"
  by (simp add: removeTransaction_def Let_def split_beta)

lemma removeTransaction_previousWeeks:
  "previousWeeks (fst (removeTransaction z clk k l tid target)) =
     fst (map_clock (updateWeek z clk tid (getWeekStart z target))
            (snd (updateWeek z clk tid (getWeekStart z target) k (currentWeek l)))
            (previousWeeks l))"
  by (simp add: removeTransaction_def Let_def split_beta)

lemma removeTransaction_nth:
  assumes "i < length (previousWeeks l)"
  shows "previousWeeks (fst (removeTransaction z clk k l tid target)) ! i =
     fst (updateWeek z clk tid (getWeekStart z target)
            (k + rebuilt_before z (getWeekStart z target) l i) (previousWeeks l ! i))"
  using assms
  by (simp add: removeTransaction_previousWeeks nth_map_clock snd_map_clock_updateWeek
      snd_updateWeek rebuilt_before_def)

lemma addTransaction_same:
  assumes "isSameWeek z (weekStart (currentWeek l)) (getWeekStart z (clk (k + 2)))"
  shows "fst (addTransaction z clk k nm amt l) =
     l\<lparr>currentWeek := fst (createWeekData z clk (k + 3) (getWeekStart z (clk (k + 2)))
          (transactions (currentWeek l)
           @ [\<lparr>id' = toString (clk k), name = nm, amount = amt, timestamp = clk (k + 1)\<rparr>]))\<rparr>"
  using assms
  by (simp add: addTransaction_def Date_now_def new_Date_def Let_def split_beta
      createWeekData_eq eval_nat_numeral)

lemma addTransaction_rotate:
  assumes "\<not> isSameWeek z (weekStart (currentWeek l)) (getWeekStart z (clk (k + 2)))"
  shows "fst (addTransaction z clk k nm amt l) =
     \<lparr>currentWeek = fst (createWeekData z clk (k + 3) (getWeekStart z (clk (k + 2)))
          [\<lparr>id' = toString (clk k), name = nm, amount = amt, timestamp = clk (k + 1)\<rparr>]),
      previousWeeks = previousWeeks l @ [currentWeek l]\<rparr>"
  using assms
  by (simp add: addTransaction_def Date_now_def new_Date_def Let_def split_beta
      createWeekData_eq eval_nat_numeral)


lemma foldl_plus_sum_list:
  fixes z :: "'a::monoid_add"
  shows "foldl (\<lambda>total x. total + f x) z xs = z + sum_list (map f xs)"
  by (induction xs arbitrary: z) (simp_all add: add.assoc)

lemma Day_eq_iff_calendar:
  "Day a = Day b \<longleftrightarrow>
     YearFromTime a = YearFromTime b \<and> MonthFromTime a = MonthFromTime b
     \<and> DateFromTime a = DateFromTime b"
proof
  assume "Day a = Day b"
  from calendar_cong(1-3) [OF this] show "YearFromTime a = YearFromTime b
     \<and> MonthFromTime a = MonthFromTime b \<and> DateFromTime a = DateFromTime b"
    by simp
next
  assume c: "YearFromTime a = YearFromTime b \<and> MonthFromTime a = MonthFromTime b
     \<and> DateFromTime a = DateFromTime b"
  then have "InLeapYear a = InLeapYear b" by (simp add: InLeapYear_def)
  with c show "Day a = Day b"
    by (simp add: Day_eq_calendar [of a] Day_eq_calendar [of b])
qed

lemma filter_missing_id:
  "tid \<notin> set (map id' txs) \<Longrightarrow> filter (\<lambda>t. id' t \<noteq> tid) txs = txs"
  by (induction txs) auto

lemma updateWeek_missing_id:
  assumes "isSameWeek z (weekStart week) target"
    and "tid \<notin> set (map id' (transactions week))"
  shows "fst (updateWeek z clk tid target k week) =
     week\<lparr>dailyTotal := calculateDailyTotal z (transactions week) (clk k),
          weeklyTotal := calculateWeeklyTotal z (transactions week) (weekStart week)\<rparr>"
  using assms by (simp add: updateWeek_match filter_missing_id)

subsection \<open>The scenarios, evaluated\<close>

lemma scenario_weeks:
  "getWeekStart (fixed_zone 0) 1753876800000 = 1753660800000"
  "getWeekStart (fixed_zone 0) 1753963200000 = 1753660800000"
  "getWeekStart (fixed_zone 0) 1753660800000 = 1753660800000"
  "getWeekStart (fixed_zone 0) 1753056000000 = 1753056000000"
  "getWeekStart (fixed_zone 0) 1752451200000 = 1752451200000"
  "getWeekStart (fixed_zone 0) 1753100000000 = 1753056000000"
  "getWeekStart (fixed_zone 0) 1754500000002 = 1754265600000"
  "getWeekEnd (fixed_zone 0) 1753660800000 = 1754265599999"
  "getWeekEnd (fixed_zone 0) 1753056000000 = 1753660799999"
  by code_simp+

lemma clock_aug_readings:
  "clock_aug 0 = 1754500000000" "clock_aug (0 + 1) = 1754500000001"
  "clock_aug (0 + 2) = 1754500000002" "clock_aug 2 = 1754500000002"
  by (simp_all add: clock_aug_def)

lemma clock_wed_thu_readings:
  "clock_wed_thu 0 = 1753876800000" "clock_wed_thu (0 + 1) = 1753876800000"
  "clock_wed_thu (0 + 2) = 1753876800000" "clock_wed_thu 2 = 1753876800000"
  "clock_wed_thu 6 = 1753963200000"
  by (simp_all add: clock_wed_thu_def)

lemma ledger_july_weekStart:
  "weekStart (currentWeek ledger_july) = 1753660800000"
  "weekStart (previousWeeks ledger_july ! 0) = 1752451200000"
  "weekStart (previousWeeks ledger_july ! 1) = 1753056000000"
  by (simp_all add: ledger_july_def)

lemma scenario_strings:
  "toString 1753876800000 = ''1753876800000''"
  "toString 1754500000000 = ''1754500000000''"
  by code_simp+

lemma ledger_wed_eq:
  "ledger_wed =
     \<lparr>currentWeek =
        \<lparr>weekStart = 1753660800000,
         transactions =
           [\<lparr>id' = ''1753876800000'', name = ''Coffee'', amount = 5,
             timestamp = 1753876800000\<rparr>],
         dailyTotal = 5, weeklyTotal = 5\<rparr>,
      previousWeeks = []\<rparr>"
proof -
  have l0: "fst (loadBudgetData (fixed_zone 0) clock_wed_thu 0 (None :: int BudgetData option)) =
     \<lparr>currentWeek = \<lparr>weekStart = 1753660800000, transactions = [],
                       dailyTotal = 0, weeklyTotal = 0\<rparr>,
      previousWeeks = []\<rparr>"
    by (simp add: loadBudgetData_def new_Date_def createWeekData_eq calculateDailyTotal_def
        calculateWeeklyTotal_def clock_wed_thu_def scenario_weeks)
  have same: "isSameWeek (fixed_zone 0) 1753660800000 (getWeekStart (fixed_zone 0) (clock_wed_thu (2 + 2)))"
    by (simp add: isSameWeek_iff clock_wed_thu_def scenario_weeks)
  show ?thesis
    unfolding ledger_wed_def l0
    using same
    by (simp add: addTransaction_same createWeekData_eq calculateDailyTotal_def
        calculateWeeklyTotal_def isSameDay_iff clock_wed_thu_def scenario_weeks
        scenario_strings)
qed

text \<open>
  Claim C1. When the week of the current bucket is not the week of now (the reading
  \<open>clk (k + 2)\<close> that \<open>addTransaction\<close> takes for \<open>today\<close>), \<open>addTransaction\<close> appends the
  old current bucket, and nothing else, after the existing previous weeks, whose order it
  keeps, and the new current bucket starts at \<open>getWeekStart\<close> of now and holds the new
  transaction only.
\<close>

theorem addTransaction_new_week:
  assumes "\<not> isSameWeek z (weekStart (currentWeek l)) (getWeekStart z (clk (k + 2)))"
  shows "previousWeeks (fst (addTransaction z clk k nm amt l))
           = previousWeeks l @ [currentWeek l]
     \<and> length (previousWeeks (fst (addTransaction z clk k nm amt l)))
           = length (previousWeeks l) + 1
     \<and> weekStart (currentWeek (fst (addTransaction z clk k nm amt l)))
           = getWeekStart z (clk (k + 2))
     \<and> transactions (currentWeek (fst (addTransaction z clk k nm amt l)))
           = [\<lparr>id' = toString (clk k), name = nm, amount = amt, timestamp = clk (k + 1)\<rparr>]"
  using assms by (simp add: addTransaction_rotate createWeekData_eq)

theorem addTransaction_new_week_witness:
  "\<not> isSameWeek (fixed_zone 0) (weekStart (currentWeek ledger_july)) (getWeekStart (fixed_zone 0) (clock_aug 2))
   \<and> previousWeeks (fst (addTransaction (fixed_zone 0) clock_aug 0 ''Bread'' 2 ledger_july))
        = previousWeeks ledger_july @ [currentWeek ledger_july]
   \<and> weekStart (currentWeek (fst (addTransaction (fixed_zone 0) clock_aug 0 ''Bread'' 2 ledger_july)))
        = 1754265600000
   \<and> transactions (currentWeek (fst (addTransaction (fixed_zone 0) clock_aug 0 ''Bread'' 2 ledger_july)))
        = [\<lparr>id' = ''1754500000000'', name = ''Bread'', amount = 2,
            timestamp = 1754500000001\<rparr>]"
proof -
  have h: "\<not> isSameWeek (fixed_zone 0) (weekStart (currentWeek ledger_july))
             (getWeekStart (fixed_zone 0) (clock_aug (0 + 2)))"
    unfolding isSameWeek_utc
    unfolding ledger_july_weekStart clock_aug_readings scenario_weeks by simp
  note t = addTransaction_new_week [where z = "fixed_zone 0" and l = ledger_july and clk = clock_aug
      and k = 0 and nm = "''Bread''" and amt = 2, OF h]
  show ?thesis
    using h t unfolding clock_aug_readings scenario_weeks scenario_strings by blast
qed

text \<open>
  Claim C2. When the week of the current bucket is the week of now, \<open>addTransaction\<close>
  leaves \<open>previousWeeks\<close> as it is (no bucket is created) and the current bucket holds the
  old transactions, in their order, followed by the new one.
\<close>

theorem addTransaction_same_week:
  assumes "isSameWeek z (weekStart (currentWeek l)) (getWeekStart z (clk (k + 2)))"
  shows "previousWeeks (fst (addTransaction z clk k nm amt l)) = previousWeeks l
     \<and> transactions (currentWeek (fst (addTransaction z clk k nm amt l)))
           = transactions (currentWeek l)
             @ [\<lparr>id' = toString (clk k), name = nm, amount = amt, timestamp = clk (k + 1)\<rparr>]"
  using assms by (simp add: addTransaction_same createWeekData_eq)

theorem addTransaction_same_week_witness:
  "isSameWeek (fixed_zone 0) (weekStart (currentWeek ledger_july)) (getWeekStart (fixed_zone 0) (clock_wed_thu 2))
   \<and> previousWeeks (fst (addTransaction (fixed_zone 0) clock_wed_thu 0 ''Bread'' 2 ledger_july))
        = previousWeeks ledger_july
   \<and> transactions (currentWeek (fst (addTransaction (fixed_zone 0) clock_wed_thu 0 ''Bread'' 2 ledger_july)))
        = [\<lparr>id' = ''4'', name = ''Tea'', amount = 3, timestamp = 1753700000000\<rparr>,
           \<lparr>id' = ''1753876800000'', name = ''Bread'', amount = 2,
            timestamp = 1753876800000\<rparr>]"
proof -
  have h: "isSameWeek (fixed_zone 0) (weekStart (currentWeek ledger_july))
             (getWeekStart (fixed_zone 0) (clock_wed_thu (0 + 2)))"
    unfolding isSameWeek_utc
    unfolding ledger_july_weekStart clock_wed_thu_readings scenario_weeks by simp
  have c: "transactions (currentWeek ledger_july)
      = [\<lparr>id' = ''4'', name = ''Tea'', amount = 3, timestamp = 1753700000000\<rparr>]"
    by (simp add: ledger_july_def)
  note t = addTransaction_same_week [where z = "fixed_zone 0" and l = ledger_july
      and clk = clock_wed_thu and k = 0 and nm = "''Bread''" and amt = 2, OF h]
  show ?thesis
    using h t unfolding clock_wed_thu_readings scenario_strings c append.simps by blast
qed




text \<open>
  Claim C3. \<open>removeTransaction\<close> changes only buckets of the target week: a bucket,
  current or previous, whose \<open>weekStart\<close> is not in the same week as the normalised
  target (\<open>isSameWeek\<close> with \<open>getWeekStart target\<close> fails) is returned as it is, with its
  \<open>weekStart\<close>, transactions and both totals, and no bucket is added or removed.
\<close>

theorem removeTransaction_frame:
  "length (previousWeeks (fst (removeTransaction z clk k l tid target)))
     = length (previousWeeks l)
   \<and> (\<not> isSameWeek z (weekStart (currentWeek l)) (getWeekStart z target)
        \<longrightarrow> currentWeek (fst (removeTransaction z clk k l tid target)) = currentWeek l)
   \<and> (\<forall>i < length (previousWeeks l).
         \<not> isSameWeek z (weekStart (previousWeeks l ! i)) (getWeekStart z target)
         \<longrightarrow> previousWeeks (fst (removeTransaction z clk k l tid target)) ! i
               = previousWeeks l ! i)"
  by (simp add: removeTransaction_currentWeek removeTransaction_nth updateWeek_other)
    (simp add: removeTransaction_previousWeeks length_map_clock)

theorem removeTransaction_frame_witness:
  "\<not> isSameWeek (fixed_zone 0) (weekStart (currentWeek ledger_july)) (getWeekStart (fixed_zone 0) 1753100000000)
   \<and> \<not> isSameWeek (fixed_zone 0) (weekStart (previousWeeks ledger_july ! 0)) (getWeekStart (fixed_zone 0) 1753100000000)
   \<and> currentWeek (fst (removeTransaction (fixed_zone 0) clock_wed_thu 6 ledger_july ''2'' 1753100000000))
        = currentWeek ledger_july
   \<and> previousWeeks (fst (removeTransaction (fixed_zone 0) clock_wed_thu 6 ledger_july ''2'' 1753100000000)) ! 0
        = previousWeeks ledger_july ! 0
   \<and> length (previousWeeks
         (fst (removeTransaction (fixed_zone 0) clock_wed_thu 6 ledger_july ''2'' 1753100000000))) = 2"
proof -
  have h0: "\<not> isSameWeek (fixed_zone 0) (weekStart (currentWeek ledger_july))
              (getWeekStart (fixed_zone 0) 1753100000000)"
    unfolding isSameWeek_utc
    unfolding ledger_july_weekStart scenario_weeks by simp
  have h1: "\<not> isSameWeek (fixed_zone 0) (weekStart (previousWeeks ledger_july ! 0))
              (getWeekStart (fixed_zone 0) 1753100000000)"
    unfolding isSameWeek_utc
    unfolding ledger_july_weekStart scenario_weeks by simp
  have n: "length (previousWeeks ledger_july) = 2" by (simp add: ledger_july_def)
  note t = removeTransaction_frame [where z = "fixed_zone 0" and l = ledger_july and clk = clock_wed_thu
      and k = 6 and tid = "''2''" and target = 1753100000000]
  show ?thesis using h0 h1 n t by simp
qed

text \<open>
  Claim C10. In a bucket of the target week \<open>removeTransaction\<close> keeps exactly the
  transactions whose id differs from the given one, in their order: every transaction
  that carries the id is deleted by the one call, not only the first.
\<close>

theorem removeTransaction_all_occurrences:
  "(isSameWeek z (weekStart (currentWeek l)) (getWeekStart z target)
      \<longrightarrow> transactions (currentWeek (fst (removeTransaction z clk k l tid target)))
            = filter (\<lambda>t. id' t \<noteq> tid) (transactions (currentWeek l))
          \<and> tid \<notin> set (map id'
              (transactions (currentWeek (fst (removeTransaction z clk k l tid target))))))
   \<and> (\<forall>i < length (previousWeeks l).
         isSameWeek z (weekStart (previousWeeks l ! i)) (getWeekStart z target)
         \<longrightarrow> transactions (previousWeeks (fst (removeTransaction z clk k l tid target)) ! i)
               = filter (\<lambda>t. id' t \<noteq> tid) (transactions (previousWeeks l ! i))
             \<and> tid \<notin> set (map id' (transactions
                 (previousWeeks (fst (removeTransaction z clk k l tid target)) ! i))))"
  by (auto simp add: removeTransaction_currentWeek removeTransaction_nth updateWeek_match)

theorem removeTransaction_all_occurrences_witness:
  "isSameWeek (fixed_zone 0) (weekStart (previousWeeks ledger_july ! 1)) (getWeekStart (fixed_zone 0) 1753100000000)
   \<and> map id' (transactions (previousWeeks ledger_july ! 1)) = [''2'', ''3'', ''2'']
   \<and> transactions
        (previousWeeks (fst (removeTransaction (fixed_zone 0) clock_wed_thu 6 ledger_july ''2'' 1753100000000)) ! 1)
        = [\<lparr>id' = ''3'', name = ''Lunch'', amount = 12, timestamp = 1753200000000\<rparr>]"
proof -
  have h: "isSameWeek (fixed_zone 0) (weekStart (previousWeeks ledger_july ! 1))
             (getWeekStart (fixed_zone 0) 1753100000000)"
    unfolding isSameWeek_utc
    unfolding ledger_july_weekStart scenario_weeks by simp
  have n: "1 < length (previousWeeks ledger_july)" by (simp add: ledger_july_def)
  have c: "transactions (previousWeeks ledger_july ! 1) =
      [\<lparr>id' = ''2'', name = ''Coffee'', amount = 4, timestamp = 1753100000000\<rparr>,
       \<lparr>id' = ''3'', name = ''Lunch'', amount = 12, timestamp = 1753200000000\<rparr>,
       \<lparr>id' = ''2'', name = ''Cake'', amount = 5, timestamp = 1753300000000\<rparr>]"
    by (simp add: ledger_july_def)
  note t = removeTransaction_all_occurrences [where z = "fixed_zone 0" and l = ledger_july
      and clk = clock_wed_thu and k = 6 and tid = "''2''" and target = 1753100000000]
  from t n h have "transactions
        (previousWeeks (fst (removeTransaction (fixed_zone 0) clock_wed_thu 6 ledger_july ''2'' 1753100000000)) ! 1)
        = filter (\<lambda>t. id' t \<noteq> ''2'') (transactions (previousWeeks ledger_july ! 1))"
    by blast
  then show ?thesis using h unfolding c by simp
qed

text \<open>
  Claim C4, as the code has it. When the id occurs in no transaction of a bucket of the
  target week, \<open>removeTransaction\<close> raises no error and returns the bucket with the same
  \<open>weekStart\<close> and the same transactions, but it rebuilds the bucket: \<open>weeklyTotal\<close> is
  computed again from the same transactions and the same week, so a \<open>weeklyTotal\<close> that
  \<open>createWeekData\<close> had computed stays, and \<open>dailyTotal\<close> is computed again against the
  clock reading of the rebuild. The bucket is unchanged exactly when its stored totals
  are these recomputed ones; a \<open>dailyTotal\<close> stored on an earlier day is replaced.
  \<open>rebuilt_before\<close> counts the buckets rebuilt earlier in the call, each of which reads
  the clock once.
\<close>

theorem removeTransaction_missing_id:
  "(isSameWeek z (weekStart (currentWeek l)) (getWeekStart z target)
      \<and> tid \<notin> set (map id' (transactions (currentWeek l)))
    \<longrightarrow> currentWeek (fst (removeTransaction z clk k l tid target))
          = (currentWeek l)
              \<lparr>dailyTotal := calculateDailyTotal z (transactions (currentWeek l)) (clk k),
               weeklyTotal := calculateWeeklyTotal z (transactions (currentWeek l))
                                (weekStart (currentWeek l))\<rparr>
        \<and> weekStart (currentWeek (fst (removeTransaction z clk k l tid target)))
          = weekStart (currentWeek l)
        \<and> transactions (currentWeek (fst (removeTransaction z clk k l tid target)))
          = transactions (currentWeek l)
        \<and> (weeklyTotal (currentWeek l)
              = calculateWeeklyTotal z (transactions (currentWeek l))
                  (weekStart (currentWeek l))
            \<longrightarrow> weeklyTotal (currentWeek (fst (removeTransaction z clk k l tid target)))
                  = weeklyTotal (currentWeek l)))
   \<and> (\<forall>i < length (previousWeeks l).
         isSameWeek z (weekStart (previousWeeks l ! i)) (getWeekStart z target)
         \<and> tid \<notin> set (map id' (transactions (previousWeeks l ! i)))
         \<longrightarrow> previousWeeks (fst (removeTransaction z clk k l tid target)) ! i
               = (previousWeeks l ! i)
                   \<lparr>dailyTotal := calculateDailyTotal z (transactions (previousWeeks l ! i))
                      (clk (k + rebuilt_before z (getWeekStart z target) l i)),
                    weeklyTotal := calculateWeeklyTotal z (transactions (previousWeeks l ! i))
                      (weekStart (previousWeeks l ! i))\<rparr>
             \<and> weekStart (previousWeeks (fst (removeTransaction z clk k l tid target)) ! i)
               = weekStart (previousWeeks l ! i)
             \<and> transactions (previousWeeks (fst (removeTransaction z clk k l tid target)) ! i)
               = transactions (previousWeeks l ! i)
             \<and> (weeklyTotal (previousWeeks l ! i)
                   = calculateWeeklyTotal z (transactions (previousWeeks l ! i))
                       (weekStart (previousWeeks l ! i))
                 \<longrightarrow> weeklyTotal
                         (previousWeeks (fst (removeTransaction z clk k l tid target)) ! i)
                       = weeklyTotal (previousWeeks l ! i)))"
proof (intro conjI allI impI)
  assume a: "isSameWeek z (weekStart (currentWeek l)) (getWeekStart z target)
      \<and> tid \<notin> set (map id' (transactions (currentWeek l)))"
  then show e: "currentWeek (fst (removeTransaction z clk k l tid target))
          = (currentWeek l)
              \<lparr>dailyTotal := calculateDailyTotal z (transactions (currentWeek l)) (clk k),
               weeklyTotal := calculateWeeklyTotal z (transactions (currentWeek l))
                                (weekStart (currentWeek l))\<rparr>"
    by (simp add: removeTransaction_currentWeek updateWeek_missing_id)
  show "weekStart (currentWeek (fst (removeTransaction z clk k l tid target)))
          = weekStart (currentWeek l)"
    by (simp add: e)
  show "transactions (currentWeek (fst (removeTransaction z clk k l tid target)))
          = transactions (currentWeek l)"
    by (simp add: e)
  show "weeklyTotal (currentWeek (fst (removeTransaction z clk k l tid target)))
          = weeklyTotal (currentWeek l)"
    if "weeklyTotal (currentWeek l)
          = calculateWeeklyTotal z (transactions (currentWeek l)) (weekStart (currentWeek l))"
    using that by (simp add: e)
next
  fix i
  assume i: "i < length (previousWeeks l)"
    and a: "isSameWeek z (weekStart (previousWeeks l ! i)) (getWeekStart z target)
         \<and> tid \<notin> set (map id' (transactions (previousWeeks l ! i)))"
  then show e: "previousWeeks (fst (removeTransaction z clk k l tid target)) ! i
               = (previousWeeks l ! i)
                   \<lparr>dailyTotal := calculateDailyTotal z (transactions (previousWeeks l ! i))
                      (clk (k + rebuilt_before z (getWeekStart z target) l i)),
                    weeklyTotal := calculateWeeklyTotal z (transactions (previousWeeks l ! i))
                      (weekStart (previousWeeks l ! i))\<rparr>"
    by (simp add: removeTransaction_nth updateWeek_missing_id)
  show "weekStart (previousWeeks (fst (removeTransaction z clk k l tid target)) ! i)
               = weekStart (previousWeeks l ! i)"
    by (simp add: e)
  show "transactions (previousWeeks (fst (removeTransaction z clk k l tid target)) ! i)
               = transactions (previousWeeks l ! i)"
    by (simp add: e)
  show "weeklyTotal (previousWeeks (fst (removeTransaction z clk k l tid target)) ! i)
               = weeklyTotal (previousWeeks l ! i)"
    if "weeklyTotal (previousWeeks l ! i)
          = calculateWeeklyTotal z (transactions (previousWeeks l ! i))
              (weekStart (previousWeeks l ! i))"
    using that by (simp add: e)
qed

theorem removeTransaction_missing_id_witness:
  "isSameWeek (fixed_zone 0) (weekStart (previousWeeks ledger_july ! 1)) (getWeekStart (fixed_zone 0) 1753100000000)
   \<and> ''9'' \<notin> set (map id' (transactions (previousWeeks ledger_july ! 1)))
   \<and> weekStart
        (previousWeeks (fst (removeTransaction (fixed_zone 0) clock_wed_thu 6 ledger_july ''9'' 1753100000000)) ! 1)
        = 1753056000000
   \<and> transactions
        (previousWeeks (fst (removeTransaction (fixed_zone 0) clock_wed_thu 6 ledger_july ''9'' 1753100000000)) ! 1)
        = transactions (previousWeeks ledger_july ! 1)
   \<and> weeklyTotal
        (previousWeeks (fst (removeTransaction (fixed_zone 0) clock_wed_thu 6 ledger_july ''9'' 1753100000000)) ! 1)
        = 21"
proof -
  have h: "isSameWeek (fixed_zone 0) (weekStart (previousWeeks ledger_july ! 1))
             (getWeekStart (fixed_zone 0) 1753100000000)"
    unfolding isSameWeek_utc
    unfolding ledger_july_weekStart scenario_weeks by simp
  have m: "''9'' \<notin> set (map id' (transactions (previousWeeks ledger_july ! 1)))"
    by (simp add: ledger_july_def)
  have n: "1 < length (previousWeeks ledger_july)" by (simp add: ledger_july_def)
  have w: "weeklyTotal (previousWeeks ledger_july ! 1)
      = calculateWeeklyTotal (fixed_zone 0) (transactions (previousWeeks ledger_july ! 1))
          (weekStart (previousWeeks ledger_july ! 1))"
    unfolding ledger_july_weekStart
    by (simp add: ledger_july_def calculateWeeklyTotal_def scenario_weeks)
  have v: "weeklyTotal (previousWeeks ledger_july ! 1) = 21" by (simp add: ledger_july_def)
  note t = removeTransaction_missing_id [where z = "fixed_zone 0" and l = ledger_july
      and clk = clock_wed_thu and k = 6 and tid = "''9''" and target = 1753100000000]
  from t n h m w have
    "weekStart
        (previousWeeks (fst (removeTransaction (fixed_zone 0) clock_wed_thu 6 ledger_july ''9'' 1753100000000)) ! 1)
        = weekStart (previousWeeks ledger_july ! 1)
     \<and> transactions
        (previousWeeks (fst (removeTransaction (fixed_zone 0) clock_wed_thu 6 ledger_july ''9'' 1753100000000)) ! 1)
        = transactions (previousWeeks ledger_july ! 1)
     \<and> weeklyTotal
        (previousWeeks (fst (removeTransaction (fixed_zone 0) clock_wed_thu 6 ledger_july ''9'' 1753100000000)) ! 1)
        = weeklyTotal (previousWeeks ledger_july ! 1)"
    by blast
  then show ?thesis using h m unfolding v ledger_july_weekStart by blast
qed

text \<open>
  Claim C4 as stated fails. On Wednesday 30 July 2025 a coffee of 5 is added to an empty
  ledger: the current bucket has \<open>dailyTotal = 5\<close>. On Thursday \<open>removeTransaction\<close> is
  called for that week with an id that no transaction has: the bucket comes back with
  \<open>dailyTotal = 0\<close>.
\<close>

theorem removeTransaction_missing_id_counterexample:
  "isSameWeek (fixed_zone 0) (weekStart (currentWeek ledger_wed))
      (getWeekStart (fixed_zone 0) 1753876800000)
   \<and> ''missing'' \<notin> set (map id' (transactions (currentWeek ledger_wed)))
   \<and> currentWeek ledger_wed =
        \<lparr>weekStart = 1753660800000,
         transactions =
           [\<lparr>id' = ''1753876800000'', name = ''Coffee'', amount = 5,
             timestamp = 1753876800000\<rparr>],
         dailyTotal = 5, weeklyTotal = 5\<rparr>
   \<and> currentWeek
        (fst (removeTransaction (fixed_zone 0) clock_wed_thu 6 ledger_wed ''missing'' 1753876800000)) =
        \<lparr>weekStart = 1753660800000,
         transactions =
           [\<lparr>id' = ''1753876800000'', name = ''Coffee'', amount = 5,
             timestamp = 1753876800000\<rparr>],
         dailyTotal = 0, weeklyTotal = 5\<rparr>
   \<and> dailyTotal (currentWeek
        (fst (removeTransaction (fixed_zone 0) clock_wed_thu 6 ledger_wed ''missing'' 1753876800000)))
        \<noteq> dailyTotal (currentWeek ledger_wed)"
proof -
  have h: "isSameWeek (fixed_zone 0) (weekStart (currentWeek ledger_wed))
      (getWeekStart (fixed_zone 0) 1753876800000)"
    unfolding isSameWeek_utc
    by (simp add: ledger_wed_eq scenario_weeks)
  have m: "''missing'' \<notin> set (map id' (transactions (currentWeek ledger_wed)))"
    by (simp add: ledger_wed_eq)
  have c: "currentWeek ledger_wed =
        \<lparr>weekStart = 1753660800000,
         transactions =
           [\<lparr>id' = ''1753876800000'', name = ''Coffee'', amount = 5,
             timestamp = 1753876800000\<rparr>],
         dailyTotal = 5, weeklyTotal = 5\<rparr>"
    by (simp add: ledger_wed_eq)
  have "currentWeek
        (fst (removeTransaction (fixed_zone 0) clock_wed_thu 6 ledger_wed ''missing'' 1753876800000))
      = (currentWeek ledger_wed)
          \<lparr>dailyTotal := calculateDailyTotal (fixed_zone 0)
              (transactions (currentWeek ledger_wed)) (clock_wed_thu 6),
           weeklyTotal := calculateWeeklyTotal (fixed_zone 0)
              (transactions (currentWeek ledger_wed)) (weekStart (currentWeek ledger_wed))\<rparr>"
    using h m by (simp add: removeTransaction_currentWeek updateWeek_missing_id)
  moreover have "calculateDailyTotal (fixed_zone 0) (transactions (currentWeek ledger_wed))
      (clock_wed_thu 6) = 0"
    by (simp add: c clock_wed_thu_readings calculateDailyTotal_def isSameDay_iff
        LocalTime_fixed Day_def msPerDay_def)
  moreover have "calculateWeeklyTotal (fixed_zone 0) (transactions (currentWeek ledger_wed))
      (weekStart (currentWeek ledger_wed)) = 5"
    by (simp add: c calculateWeeklyTotal_def scenario_weeks)
  ultimately have r: "currentWeek
        (fst (removeTransaction (fixed_zone 0) clock_wed_thu 6 ledger_wed ''missing'' 1753876800000)) =
        \<lparr>weekStart = 1753660800000,
         transactions =
           [\<lparr>id' = ''1753876800000'', name = ''Coffee'', amount = 5,
             timestamp = 1753876800000\<rparr>],
         dailyTotal = 0, weeklyTotal = 5\<rparr>"
    by (simp add: c)
  have "dailyTotal (currentWeek
        (fst (removeTransaction (fixed_zone 0) clock_wed_thu 6 ledger_wed ''missing'' 1753876800000)))
        \<noteq> dailyTotal (currentWeek ledger_wed)"
    unfolding r c by simp
  with h m c r show ?thesis by blast
qed

lemma calculateDailyTotal_fold:
  "calculateDailyTotal z txs date =
     foldl (\<lambda>total transaction. total + amount transaction) 0 (filter (\<lambda>t.
        YearFromTime (LocalTime z (timestamp t)) = YearFromTime (LocalTime z date)
        \<and> MonthFromTime (LocalTime z (timestamp t)) = MonthFromTime (LocalTime z date)
        \<and> DateFromTime (LocalTime z (timestamp t)) = DateFromTime (LocalTime z date)) txs)"
  by (simp add: calculateDailyTotal_def isSameDay_iff Day_eq_iff_calendar)

lemma calculateDailyTotal_sum:
  fixes txs :: "('a::monoid_add) Transaction list"
  shows "calculateDailyTotal z txs date =
     sum_list (map amount (filter (\<lambda>t.
        YearFromTime (LocalTime z (timestamp t)) = YearFromTime (LocalTime z date)
        \<and> MonthFromTime (LocalTime z (timestamp t)) = MonthFromTime (LocalTime z date)
        \<and> DateFromTime (LocalTime z (timestamp t)) = DateFromTime (LocalTime z date)) txs))"
  by (simp add: calculateDailyTotal_fold foldl_plus_sum_list)

lemma calculateWeeklyTotal_sum:
  fixes txs :: "('a::monoid_add) Transaction list"
  shows "calculateWeeklyTotal z txs ws =
     sum_list (map amount (filter (\<lambda>t.
        ws \<le> timestamp t \<and> timestamp t \<le> getWeekEnd z ws) txs))"
  by (simp add: calculateWeeklyTotal_def foldl_plus_sum_list)

text \<open>
  Claim C5. \<open>createWeekData\<close> returns the bucket of the given \<open>weekStart\<close> and transactions
  whose \<open>dailyTotal\<close> is the sum of the amounts of the transactions whose timestamp has
  the local calendar day (year, month, day of the month) of now, the clock reading of
  the call, and not of \<open>weekStart\<close>, and whose \<open>weeklyTotal\<close> is the sum of the amounts of
  the transactions with \<open>weekStart \<le> timestamp \<le> getWeekEnd weekStart\<close>, both bounds
  included. Each sum is the one the code computes: the amounts are added one by one,
  in the order of the list, starting from 0. Nothing is asked of the addition, so the
  statement holds for amounts of any kind with a 0 and a \<open>+\<close>, associative or not.
\<close>

theorem createWeekData_totals:
  fixes txs :: "('a::{zero,plus}) Transaction list"
  shows "weekStart (fst (createWeekData z clk k ws txs)) = ws
   \<and> transactions (fst (createWeekData z clk k ws txs)) = txs
   \<and> dailyTotal (fst (createWeekData z clk k ws txs)) =
       foldl (\<lambda>total transaction. total + amount transaction) 0 (filter (\<lambda>t.
          YearFromTime (LocalTime z (timestamp t)) = YearFromTime (LocalTime z (clk k))
          \<and> MonthFromTime (LocalTime z (timestamp t)) = MonthFromTime (LocalTime z (clk k))
          \<and> DateFromTime (LocalTime z (timestamp t)) = DateFromTime (LocalTime z (clk k)))
          txs)
   \<and> weeklyTotal (fst (createWeekData z clk k ws txs)) =
       foldl (\<lambda>total transaction. total + amount transaction) 0 (filter (\<lambda>t.
          ws \<le> timestamp t \<and> timestamp t \<le> getWeekEnd z ws) txs)"
  by (simp add: createWeekData_eq calculateDailyTotal_fold calculateWeeklyTotal_def)

lemma scenario_calendar:
  "YearFromTime (LocalTime (fixed_zone 0) 1753876800000) = 2025"
  "MonthFromTime (LocalTime (fixed_zone 0) 1753876800000) = 6"
  "DateFromTime (LocalTime (fixed_zone 0) 1753876800000) = 30"
  "YearFromTime (LocalTime (fixed_zone 0) 1753700000000) = 2025"
  "MonthFromTime (LocalTime (fixed_zone 0) 1753700000000) = 6"
  "DateFromTime (LocalTime (fixed_zone 0) 1753700000000) = 28"
  "YearFromTime (LocalTime (fixed_zone 0) 1753876801000) = 2025"
  "MonthFromTime (LocalTime (fixed_zone 0) 1753876801000) = 6"
  "DateFromTime (LocalTime (fixed_zone 0) 1753876801000) = 30"
  "YearFromTime (LocalTime (fixed_zone 0) 1753400000000) = 2025"
  "MonthFromTime (LocalTime (fixed_zone 0) 1753400000000) = 6"
  "DateFromTime (LocalTime (fixed_zone 0) 1753400000000) = 24"
  by code_simp+

theorem createWeekData_totals_witness:
  "dailyTotal (fst (createWeekData (fixed_zone 0) clock_wed_thu 0 1753660800000
      [\<lparr>id' = ''4'', name = ''Tea'', amount = 3, timestamp = 1753700000000\<rparr>,
       \<lparr>id' = ''5'', name = ''Bread'', amount = 2, timestamp = 1753876801000\<rparr>,
       \<lparr>id' = ''6'', name = ''Old'', amount = 7, timestamp = 1753400000000\<rparr>])) = (2::int)
   \<and> weeklyTotal (fst (createWeekData (fixed_zone 0) clock_wed_thu 0 1753660800000
      [\<lparr>id' = ''4'', name = ''Tea'', amount = 3, timestamp = 1753700000000\<rparr>,
       \<lparr>id' = ''5'', name = ''Bread'', amount = 2, timestamp = 1753876801000\<rparr>,
       \<lparr>id' = ''6'', name = ''Old'', amount = 7, timestamp = 1753400000000\<rparr>])) = (5::int)"
  using createWeekData_totals [where z = "fixed_zone 0" and clk = clock_wed_thu and k = 0
      and ws = 1753660800000 and txs =
      "[\<lparr>id' = ''4'', name = ''Tea'', amount = 3::int, timestamp = 1753700000000\<rparr>,
        \<lparr>id' = ''5'', name = ''Bread'', amount = 2, timestamp = 1753876801000\<rparr>,
        \<lparr>id' = ''6'', name = ''Old'', amount = 7, timestamp = 1753400000000\<rparr>]"]
  by (simp add: clock_wed_thu_readings scenario_calendar scenario_weeks)

end
